theory Spec2Isabelle
  imports Complex_Main
begin

section \<open>Python values and exceptions\<close>

text \<open>
  The context engine works on dynamically typed dictionaries. A value that a dictionary or a
  decoded JSON document may hold is a \<open>pyval\<close>. Python floats are modelled by exact reals;
  a dictionary with string keys is a partial map. Keys of the tally dictionaries are compared
  structurally (the interaction types and statuses that the store returns are strings).
\<close>

datatype pyval =
    PNone
  | PBool bool
  | PInt int
  | PFloat real
  | PStr string
  | PList "pyval list"
  | PDict "(string \<times> pyval) list"

type_synonym pydict = "string \<rightharpoonup> pyval"

text \<open>Truth value testing, as \<open>if v:\<close> and \<open>not v\<close> do it.\<close>

fun truthy :: "pyval \<Rightarrow> bool" where
  "truthy PNone = False"
| "truthy (PBool b) = b"
| "truthy (PInt n) = (n \<noteq> 0)"
| "truthy (PFloat r) = (r \<noteq> 0)"
| "truthy (PStr s) = (s \<noteq> [])"
| "truthy (PList xs) = (xs \<noteq> [])"
| "truthy (PDict kvs) = (kvs \<noteq> [])"

text \<open>\<open>d.get(k, default)\<close> and \<open>d.get(k)\<close>.\<close>

definition dict_get :: "pydict \<Rightarrow> string \<Rightarrow> pyval \<Rightarrow> pyval" where
  "dict_get d k dflt = (case d k of None \<Rightarrow> dflt | Some v \<Rightarrow> v)"

text \<open>The number a value stands for in \<open>total += v\<close>; \<open>None\<close> when the addition raises.\<close>

fun py_num :: "pyval \<Rightarrow> real option" where
  "py_num (PInt n) = Some (of_int n)"
| "py_num (PFloat r) = Some r"
| "py_num (PBool b) = Some (if b then 1 else 0)"
| "py_num _ = None"

fun hashable :: "pyval \<Rightarrow> bool" where
  "hashable (PList xs) = False"
| "hashable (PDict kvs) = False"
| "hashable _ = True"

text \<open>
  Exceptions are values. \<open>StorageError\<close> stands for whatever the database driver raises.
  The text of a \<open>TypeError\<close> that depends on the operand types is abbreviated.
\<close>

datatype py_error =
    ValueError string
  | TypeError string
  | KeyError string
  | AttributeError string
  | RuntimeError string
  | StorageError string

text \<open>\<open>str(e)\<close>: the message; a \<open>KeyError\<close> prints the quoted key.\<close>

fun str_error :: "py_error \<Rightarrow> string" where
  "str_error (ValueError m) = m"
| "str_error (TypeError m) = m"
| "str_error (KeyError k) = [CHR 0x27] @ k @ [CHR 0x27]"
| "str_error (AttributeError m) = m"
| "str_error (RuntimeError m) = m"
| "str_error (StorageError m) = m"

type_synonym 'a result = "py_error + 'a"

text \<open>Sequencing: the first exception raised ends the computation.\<close>

definition quoted :: "string \<Rightarrow> string" where
  "quoted s = [CHR 0x27] @ s @ [CHR 0x27]"

definition bind_result :: "'a result \<Rightarrow> ('a \<Rightarrow> 'b result) \<Rightarrow> 'b result" where
  "bind_result r f = (case r of Inl e \<Rightarrow> Inl e | Inr x \<Rightarrow> f x)"

section \<open>Data model (task\_storage.py)\<close>

datatype TaskStatus = PENDING | IN_PROGRESS | DONE | DEFERRED | BLOCKED | CANCELLED

datatype TaskPriority = LOW | MEDIUM | HIGH | CRITICAL

fun status_value :: "TaskStatus \<Rightarrow> string" where
  "status_value PENDING = ''pending''"
| "status_value IN_PROGRESS = ''in-progress''"
| "status_value DONE = ''done''"
| "status_value DEFERRED = ''deferred''"
| "status_value BLOCKED = ''blocked''"
| "status_value CANCELLED = ''cancelled''"

fun priority_value :: "TaskPriority \<Rightarrow> string" where
  "priority_value LOW = ''low''"
| "priority_value MEDIUM = ''medium''"
| "priority_value HIGH = ''high''"
| "priority_value CRITICAL = ''critical''"

text \<open>\<open>TaskStatus(s)\<close> and \<open>TaskPriority(s)\<close>: the enum member of a token, or ValueError.\<close>

definition TaskStatus_of :: "string \<Rightarrow> TaskStatus result" where
  "TaskStatus_of s =
     (if s = ''pending'' then Inr PENDING
      else if s = ''in-progress'' then Inr IN_PROGRESS
      else if s = ''done'' then Inr DONE
      else if s = ''deferred'' then Inr DEFERRED
      else if s = ''blocked'' then Inr BLOCKED
      else if s = ''cancelled'' then Inr CANCELLED
      else Inl (ValueError (quoted s @ '' is not a valid TaskStatus'')))"

definition TaskPriority_of :: "string \<Rightarrow> TaskPriority result" where
  "TaskPriority_of s =
     (if s = ''low'' then Inr LOW
      else if s = ''medium'' then Inr MEDIUM
      else if s = ''high'' then Inr HIGH
      else if s = ''critical'' then Inr CRITICAL
      else Inl (ValueError (quoted s @ '' is not a valid TaskPriority'')))"

text \<open>A timestamp is represented by its ISO-8601 text, so \<open>isoformat\<close> leaves it as it is.\<close>

type_synonym datetime = string

definition isoformat :: "datetime \<Rightarrow> string" where
  "isoformat d = d"

text \<open>
  The fields of \<open>AtomicTask\<close> that the context engine reads. The JSON columns
  (requirements, acceptance criteria, metadata) and \<open>created_by\<close> are never read by it.
\<close>

record AtomicTask =
  t_id :: string
  t_title :: string
  t_description :: "string option"
  t_affected_files :: "string list option"
  t_complexity_score :: "int option"
  t_status :: TaskStatus
  t_priority :: TaskPriority
  t_created_at :: "datetime option"
  t_updated_at :: "datetime option"
  t_assigned_to :: "string option"
  t_estimated_hours :: "real option"
  t_actual_hours :: "real option"
  t_tags :: "string list option"

text \<open>\<open>TaskContext\<close>: an absent entry is \<open>PNone\<close>.\<close>

record TaskContext =
  tc_task_id :: string
  tc_requirements_context :: pyval
  tc_codebase_context :: pyval
  tc_ai_interactions :: "pydict list"
  tc_validation_results :: "pydict list"
  tc_workflow_state :: pyval
  tc_performance_metrics :: pyval
  tc_metadata :: pyval

section \<open>Data model (context\_engine.py)\<close>

text \<open>The \<open>task_summary\<close> dictionary: its thirteen keys are always present.\<close>

record task_summary =
  s_id :: string
  s_title :: string
  s_description :: "string option"
  s_status :: string
  s_priority :: string
  s_complexity_score :: "int option"
  s_affected_files :: "string list option"
  s_tags :: "string list option"
  s_created_at :: "string option"
  s_updated_at :: "string option"
  s_assigned_to :: "string option"
  s_estimated_hours :: "real option"
  s_actual_hours :: "real option"

text \<open>One entry of \<open>dependency_info\<close>.\<close>

record dependency_info =
  d_id :: string
  d_title :: string
  d_status :: string
  d_priority :: string
  d_complexity_score :: "int option"

text \<open>
  The dependency dictionary has two shapes: \<open>{'has_dependencies': False, 'dependencies': []}\<close>
  and the full summary with \<open>has_dependencies\<close> true.
\<close>

record dependency_summary =
  total_dependencies :: nat
  completed_dependencies :: nat
  pending_dependencies :: nat
  blocked_dependencies :: nat
  dependencies :: "dependency_info list"
  is_ready :: bool

datatype dependency_context = No_dependencies | Has_dependencies dependency_summary

text \<open>One entry of the \<open>metrics\<close> list of the performance dictionary.\<close>

record metric =
  m_type :: string
  m_name :: string
  m_value :: "real option"
  m_unit :: "string option"
  m_timestamp :: string

text \<open>
  The performance dictionary: \<open>{'has_metrics': False}\<close> or the full summary
  (the two \<open>ps_\<close> fields are the nested \<open>performance_summary\<close> dictionary).
\<close>

record performance_summary =
  total_metrics :: nat
  avg_execution_time :: "real option"
  recent_metrics :: "metric list"
  ps_execution_times :: nat
  ps_avg_execution_time_ms :: "real option"

datatype performance_context = No_metrics | Has_metrics performance_summary

record PromptContext =
  pc_task_id :: string
  task_summary :: task_summary
  requirements_context :: pyval
  codebase_context :: pyval
  recent_interactions :: "pydict list option"
  validation_history :: "pydict list option"
  dependency_context :: "dependency_context option"
  performance_context :: "performance_context option"
  workflow_state :: pyval
  metadata :: pyval

section \<open>Complexity analysis\<close>

record complexity_indicators =
  complexity_score :: "int option"
  affected_files_count :: nat
  has_dependencies :: bool
  dependency_count :: nat
  requirements_complexity :: string
  overall_complexity :: string

text \<open>The three increments of \<open>complexity_factors\<close>.\<close>

definition score_factor :: "int option \<Rightarrow> nat" where
  "score_factor sc =
     (case sc of
        None \<Rightarrow> 0
      | Some v \<Rightarrow> if v \<noteq> 0 \<and> v > 7 then 2 else if v \<noteq> 0 \<and> v > 5 then 1 else 0)"

definition files_factor :: "nat \<Rightarrow> nat" where
  "files_factor n = (if n > 5 then 2 else if n > 2 then 1 else 0)"

definition dependency_factor :: "nat \<Rightarrow> nat" where
  "dependency_factor n = (if n > 3 then 1 else 0)"

definition complexity_bucket :: "nat \<Rightarrow> string" where
  "complexity_bucket complexity_factors =
     (if complexity_factors \<ge> 4 then ''very_high''
      else if complexity_factors \<ge> 3 then ''high''
      else if complexity_factors \<ge> 2 then ''medium''
      else ''low'')"

text \<open>
  \<open>_analyze_complexity\<close>. \<open>len(None)\<close> raises when the task has no file list, and
  \<open>dependency_context.get\<close> raises on a context without a dependency dictionary.
\<close>

definition analyze_complexity :: "PromptContext \<Rightarrow> complexity_indicators result" where
  "analyze_complexity context =
     (case s_affected_files (task_summary context) of
        None \<Rightarrow> Inl (TypeError (''object of type '' @ quoted ''NoneType'' @ '' has no len()''))
      | Some files \<Rightarrow>
         (case dependency_context context of
            None \<Rightarrow> Inl (AttributeError
                     (quoted ''NoneType'' @ '' object has no attribute '' @ quoted ''get''))
          | Some dc \<Rightarrow>
             (let cs = s_complexity_score (task_summary context);
                  fc = length files;
                  has_deps = (case dc of No_dependencies \<Rightarrow> False | Has_dependencies d \<Rightarrow> True);
                  dcount = (case dc of No_dependencies \<Rightarrow> 0
                            | Has_dependencies d \<Rightarrow> total_dependencies d);
                  rc = (if truthy (requirements_context context) then ''high'' else ''low'');
                  complexity_factors = score_factor cs + files_factor fc + dependency_factor dcount
              in Inr \<lparr> complexity_score = cs,
                       affected_files_count = fc,
                       has_dependencies = has_deps,
                       dependency_count = dcount,
                       requirements_complexity = rc,
                       overall_complexity = complexity_bucket complexity_factors \<rparr>)))"

text \<open>The order of the buckets: low < medium < high < very\_high.\<close>

definition bucket_rank :: "string \<Rightarrow> nat" where
  "bucket_rank b =
     (if b = ''very_high'' then 3 else if b = ''high'' then 2
      else if b = ''medium'' then 1 else 0)"

section \<open>Interaction analysis\<close>

text \<open>
  The interaction dictionary has two shapes: \<open>{'has_interactions': False}\<close>, modelled by
  \<open>None\<close>, and the full statistics.
\<close>

record interaction_stats =
  total_interactions :: nat
  interaction_types :: "pyval \<rightharpoonup> nat"
  error_count :: nat
  error_rate :: real
  avg_execution_time_ms :: "real option"
  success_rate :: real

text \<open>The variables that the loop of \<open>_analyze_interactions\<close> updates.\<close>

record interaction_acc =
  ia_type_counts :: "pyval \<rightharpoonup> nat"
  ia_error_count :: nat
  ia_total_execution_time :: real
  ia_execution_count :: nat

text \<open>\<open>counts[k] = counts.get(k, 0) + 1\<close>.\<close>

definition tally :: "('k \<rightharpoonup> nat) \<Rightarrow> 'k \<Rightarrow> ('k \<rightharpoonup> nat)" where
  "tally counts k = counts(k \<mapsto> (case counts k of None \<Rightarrow> 0 | Some c \<Rightarrow> c) + 1)"

definition interaction_step :: "interaction_acc \<Rightarrow> pydict \<Rightarrow> interaction_acc result" where
  "interaction_step acc interaction =
     (let interaction_type = dict_get interaction ''interaction_type'' (PStr ''unknown'')
      in if \<not> hashable interaction_type then Inl (TypeError ''unhashable type'')
         else
          (let acc1 = acc\<lparr>ia_type_counts := tally (ia_type_counts acc) interaction_type\<rparr>;
               acc2 = (if \<not> truthy (dict_get interaction ''success'' (PBool True))
                       then acc1\<lparr>ia_error_count := ia_error_count acc1 + 1\<rparr>
                       else acc1);
               exec_time = dict_get interaction ''execution_time_ms'' PNone
           in if truthy exec_time
              then (case py_num exec_time of
                      None \<Rightarrow> Inl (TypeError ''unsupported operand type(s) for +='')
                    | Some x \<Rightarrow>
                        Inr (acc2\<lparr>ia_total_execution_time := ia_total_execution_time acc2 + x,
                                  ia_execution_count := ia_execution_count acc2 + 1\<rparr>))
              else Inr acc2))"

fun interaction_loop :: "interaction_acc \<Rightarrow> pydict list \<Rightarrow> interaction_acc result" where
  "interaction_loop acc [] = Inr acc"
| "interaction_loop acc (i # rest) =
     bind_result (interaction_step acc i) (\<lambda>acc'. interaction_loop acc' rest)"

definition analyze_interactions :: "pydict list option \<Rightarrow> interaction_stats option result" where
  "analyze_interactions interactions =
     (case interactions of
        None \<Rightarrow> Inr None
      | Some [] \<Rightarrow> Inr None
      | Some (i # rest) \<Rightarrow>
          bind_result
            (interaction_loop \<lparr>ia_type_counts = Map.empty, ia_error_count = 0,
                                ia_total_execution_time = 0, ia_execution_count = 0\<rparr> (i # rest))
            (\<lambda>acc.
               let avg_time = (if ia_execution_count acc > 0
                               then Some (ia_total_execution_time acc / real (ia_execution_count acc))
                               else None);
                   rate = real (ia_error_count acc) / real (length (i # rest))
               in Inr (Some \<lparr> total_interactions = length (i # rest),
                               interaction_types = ia_type_counts acc,
                               error_count = ia_error_count acc,
                               error_rate = rate,
                               avg_execution_time_ms = avg_time,
                               success_rate = 1 - rate \<rparr>)))"

section \<open>Validation analysis\<close>

record validation_stats =
  total_validations :: nat
  status_distribution :: "pyval \<rightharpoonup> nat"
  validation_types :: "pyval \<rightharpoonup> nat"
  avg_score :: "real option"
  pass_rate :: real
  recent_trend :: string

record validation_acc =
  va_status_counts :: "pyval \<rightharpoonup> nat"
  va_type_counts :: "pyval \<rightharpoonup> nat"
  va_total_score :: real
  va_score_count :: nat

definition validation_step :: "validation_acc \<Rightarrow> pydict \<Rightarrow> validation_acc result" where
  "validation_step acc validation =
     (let status = dict_get validation ''status'' (PStr ''unknown'');
          validation_type = dict_get validation ''validation_type'' (PStr ''unknown'')
      in if \<not> hashable status \<or> \<not> hashable validation_type
         then Inl (TypeError ''unhashable type'')
         else
          (let acc1 = acc\<lparr>va_status_counts := tally (va_status_counts acc) status,
                           va_type_counts := tally (va_type_counts acc) validation_type\<rparr>;
               score = dict_get validation ''score'' PNone
           in if score \<noteq> PNone
              then (case py_num score of
                      None \<Rightarrow> Inl (TypeError ''unsupported operand type(s) for +='')
                    | Some x \<Rightarrow>
                        Inr (acc1\<lparr>va_total_score := va_total_score acc1 + x,
                                  va_score_count := va_score_count acc1 + 1\<rparr>))
              else Inr acc1))"

fun validation_loop :: "validation_acc \<Rightarrow> pydict list \<Rightarrow> validation_acc result" where
  "validation_loop acc [] = Inr acc"
| "validation_loop acc (v # rest) =
     bind_result (validation_step acc v) (\<lambda>acc'. validation_loop acc' rest)"

text \<open>
  \<open>_calculate_validation_trend\<close>: the newest-first list is cut at \<open>len(validations)//2\<close>;
  \<open>recent\<close> is the part before the cut and \<open>older\<close> the part from the cut on.
\<close>

definition recent_half :: "'a list \<Rightarrow> 'a list" where
  "recent_half xs = take (length xs div 2) xs"

definition older_half :: "'a list \<Rightarrow> 'a list" where
  "older_half xs = drop (length xs div 2) xs"

definition is_passed :: "pydict \<Rightarrow> bool" where
  "is_passed v = (dict_get v ''status'' PNone = PStr ''passed'')"

definition half_pass_rate :: "pydict list \<Rightarrow> real" where
  "half_pass_rate vs = real (length (filter is_passed vs)) / real (length vs)"

definition calculate_validation_trend :: "pydict list \<Rightarrow> string" where
  "calculate_validation_trend validations =
     (if length validations < 3 then ''insufficient_data''
      else
       (let recent = recent_half validations;
            older = older_half validations;
            recent_pass_rate = half_pass_rate recent;
            older_pass_rate = half_pass_rate older
        in if recent_pass_rate > older_pass_rate + 0.1 then ''improving''
           else if recent_pass_rate < older_pass_rate - 0.1 then ''declining''
           else ''stable''))"

definition analyze_validations :: "pydict list option \<Rightarrow> validation_stats option result" where
  "analyze_validations validations =
     (case validations of
        None \<Rightarrow> Inr None
      | Some [] \<Rightarrow> Inr None
      | Some (v # rest) \<Rightarrow>
          bind_result
            (validation_loop \<lparr>va_status_counts = Map.empty, va_type_counts = Map.empty,
                               va_total_score = 0, va_score_count = 0\<rparr> (v # rest))
            (\<lambda>acc.
               Inr (Some \<lparr> total_validations = length (v # rest),
                            status_distribution = va_status_counts acc,
                            validation_types = va_type_counts acc,
                            avg_score = (if va_score_count acc > 0
                                         then Some (va_total_score acc / real (va_score_count acc))
                                         else None),
                            pass_rate =
                              real (case va_status_counts acc (PStr ''passed'') of
                                      None \<Rightarrow> 0 | Some c \<Rightarrow> c)
                              / real (length (v # rest)),
                            recent_trend = calculate_validation_trend (v # rest) \<rparr>)))"

section \<open>Performance analysis\<close>

record performance_analysis =
  pa_total_metrics :: nat
  pa_avg_execution_time :: "real option"
  execution_time_trend :: string

definition calculate_performance_trend :: "real list \<Rightarrow> string" where
  "calculate_performance_trend execution_times =
     (if length execution_times < 3 then ''insufficient_data''
      else
       (let recent_avg = sum_list (take (length execution_times div 2) execution_times) / real (length execution_times div 2);
            older_avg = sum_list (drop (length execution_times div 2) execution_times)
                        / real (length execution_times - length execution_times div 2)
        in if recent_avg < older_avg * 0.9 then ''improving''
           else if recent_avg > older_avg * 1.1 then ''declining''
           else ''stable''))"

text \<open>The truthy values of a list of metrics: \<open>m['value'] for m in metrics if m['value']\<close>.\<close>

definition truthy_values :: "metric list \<Rightarrow> real list" where
  "truthy_values metrics =
     List.map_filter
       (\<lambda>m. case m_value m of None \<Rightarrow> None | Some v \<Rightarrow> if v \<noteq> 0 then Some v else None)
       metrics"

text \<open>The values of the metrics of type \<open>execution_time\<close> whose value is truthy.\<close>

definition truthy_execution_times :: "metric list \<Rightarrow> real list" where
  "truthy_execution_times metrics =
     truthy_values (filter (\<lambda>m. m_type m = ''execution_time'') metrics)"

definition analyze_performance :: "performance_context option \<Rightarrow> performance_analysis option" where
  "analyze_performance pc =
     (case pc of
        None \<Rightarrow> None
      | Some No_metrics \<Rightarrow> None
      | Some (Has_metrics p) \<Rightarrow>
          Some \<lparr> pa_total_metrics = length (recent_metrics p),
                 pa_avg_execution_time = avg_execution_time p,
                 execution_time_trend =
                   calculate_performance_trend (truthy_execution_times (recent_metrics p)) \<rparr>)"

section \<open>Recommendations\<close>

definition rec_very_high :: string where
  "rec_very_high = ''Consider breaking this task into smaller subtasks due to very high complexity''"

definition rec_high :: string where
  "rec_high = ''Task has high complexity - ensure thorough testing and validation''"

definition rec_dependencies :: string where
  "rec_dependencies = ''High number of dependencies - verify all prerequisites are completed''"

definition rec_error_rate :: string where
  "rec_error_rate = ''High error rate in AI interactions - review prompts and context quality''"

definition rec_slow :: string where
  "rec_slow = ''Long AI interaction times - consider optimizing prompts or context size''"

definition rec_pass_rate :: string where
  "rec_pass_rate = ''Low validation pass rate - review code quality and testing strategy''"

definition rec_validation_trend :: string where
  "rec_validation_trend = ''Validation quality is declining - investigate recent changes''"

definition rec_performance_trend :: string where
  "rec_performance_trend = ''Performance is declining - consider optimization opportunities''"

definition rec_no_interactions :: string where
  "rec_no_interactions = ''No AI interactions recorded - ensure proper logging is enabled''"

definition rec_no_validations :: string where
  "rec_no_validations = ''No validation results - implement automated validation checks''"

text \<open>
  \<open>_generate_recommendations\<close>. \<open>interactions.get('avg_execution_time_ms', 0)\<close> is \<open>0\<close> when
  the key is absent and \<open>None\<close> when the statistics hold no timing; \<open>None > 5000\<close> raises.
\<close>

definition generate_recommendations ::
  "complexity_indicators \<Rightarrow> interaction_stats option \<Rightarrow> validation_stats option \<Rightarrow>
   performance_analysis option \<Rightarrow> string list result" where
  "generate_recommendations complexity interactions validations performance =
     (let r1 = (if overall_complexity complexity = ''very_high'' then [rec_very_high]
                else if overall_complexity complexity = ''high'' then [rec_high]
                else []);
          r2 = (if dependency_count complexity > 3 then [rec_dependencies] else []);
          r3 = (if (case interactions of None \<Rightarrow> 0 | Some i \<Rightarrow> error_rate i) > 0.3
                then [rec_error_rate] else [])
      in case (case interactions of None \<Rightarrow> Some 0 | Some i \<Rightarrow> avg_execution_time_ms i) of
           None \<Rightarrow>
             Inl (TypeError (quoted ''>'' @ '' not supported between instances of ''
                             @ quoted ''NoneType'' @ '' and '' @ quoted ''int''))
         | Some avg_time \<Rightarrow>
             Inr (r1 @ r2 @ r3
                  @ (if avg_time > 5000 then [rec_slow] else [])
                  @ (if (case validations of None \<Rightarrow> 1 | Some v \<Rightarrow> pass_rate v) < 0.7
                     then [rec_pass_rate] else [])
                  @ (if (case validations of None \<Rightarrow> False
                         | Some v \<Rightarrow> recent_trend v = ''declining'')
                     then [rec_validation_trend] else [])
                  @ (if (case performance of None \<Rightarrow> False
                         | Some p \<Rightarrow> execution_time_trend p = ''declining'')
                     then [rec_performance_trend] else [])
                  @ (if interactions = None then [rec_no_interactions] else [])
                  @ (if validations = None then [rec_no_validations] else [])))"

section \<open>The database\<close>

text \<open>
  The rows of the six tables that the engine reads, with the columns its queries select.
  A JSON column holds the decoded document. Each table is kept newest first, so a query's
  \<open>ORDER BY created_at DESC\<close> (or \<open>timestamp DESC\<close>) returns the rows in table order and the row
  at the head of a table is the one written last.
\<close>

record task_row =
  tr_id :: string
  tr_title :: string
  tr_description :: "string option"
  tr_affected_files :: "string list option"
  tr_complexity_score :: "int option"
  tr_status :: string
  tr_priority :: string
  tr_created_at :: "datetime option"
  tr_updated_at :: "datetime option"
  tr_assigned_to :: "string option"
  tr_estimated_hours :: "real option"
  tr_actual_hours :: "real option"
  tr_tags :: "string list option"

record dependency_row =
  parent_task_id :: string
  child_task_id :: string
  dependency_type :: string

record context_row =
  cr_task_id :: string
  context_type :: string
  context_data :: pyval
  is_active :: bool

record interaction_row =
  ar_task_id :: string
  agent_name :: string
  interaction_type :: string
  request_data :: "pyval option"
  response_data :: "pyval option"
  execution_time_ms :: "int option"
  success :: "bool option"
  error_message :: "string option"
  ar_created_at :: datetime

record validation_row =
  vr_task_id :: string
  validation_type :: string
  validator_name :: string
  status :: string
  score :: "real option"
  details :: "pyval option"
  suggestions :: "pyval option"
  vr_created_at :: datetime

text \<open>
  Modelled from the spec: the declaration of the table \<open>performance_metrics\<close> (the schema file)
  is not among the sources; by the spec's data model a performance sample is one timestamped
  metric with a type, a name, a value and a unit, so the value column is a number, never NULL.
\<close>

record metric_row =
  mr_task_id :: string
  metric_type :: string
  metric_name :: string
  metric_value :: real
  metric_unit :: "string option"
  timestamp :: datetime

datatype query =
    Q_tasks | Q_task_dependencies | Q_task_context
  | Q_ai_interactions | Q_validation_results | Q_performance_metrics

text \<open>
  \<open>pool\<close> tells whether the manager has been initialised. \<open>failing q id\<close> is the message of
  the driver error with which the query \<open>q\<close> for task \<open>id\<close> fails, if it fails.
\<close>

record database =
  pool :: bool
  tasks :: "task_row list"
  task_dependencies :: "dependency_row list"
  task_context :: "context_row list"
  ai_interactions :: "interaction_row list"
  validation_results :: "validation_row list"
  performance_metrics :: "metric_row list"
  failing :: "query \<Rightarrow> string \<Rightarrow> string option"

definition fetch :: "database \<Rightarrow> query \<Rightarrow> string \<Rightarrow> 'a \<Rightarrow> 'a result" where
  "fetch db q task_id rows =
     (case failing db q task_id of Some msg \<Rightarrow> Inl (StorageError msg) | None \<Rightarrow> Inr rows)"

text \<open>\<open>DatabaseManager.get_task_storage\<close> and \<open>get_context_storage\<close>.\<close>

definition get_task_storage :: "database \<Rightarrow> unit result" where
  "get_task_storage db =
     (if \<not> pool db then Inl (RuntimeError ''Database not initialized'') else Inr ())"

section \<open>TaskStorage\<close>

definition get_task :: "database \<Rightarrow> string \<Rightarrow> AtomicTask option result" where
  "get_task db task_id =
     bind_result (fetch db Q_tasks task_id (find (\<lambda>r. tr_id r = task_id) (tasks db)))
       (\<lambda>row. case row of
          None \<Rightarrow> Inr None
        | Some r \<Rightarrow>
            bind_result (TaskStatus_of (tr_status r)) (\<lambda>st.
            bind_result (TaskPriority_of (tr_priority r)) (\<lambda>pr.
              Inr (Some \<lparr> t_id = tr_id r,
                           t_title = tr_title r,
                           t_description = tr_description r,
                           t_affected_files = tr_affected_files r,
                           t_complexity_score = tr_complexity_score r,
                           t_status = st,
                           t_priority = pr,
                           t_created_at = tr_created_at r,
                           t_updated_at = tr_updated_at r,
                           t_assigned_to = tr_assigned_to r,
                           t_estimated_hours = tr_estimated_hours r,
                           t_actual_hours = tr_actual_hours r,
                           t_tags = tr_tags r \<rparr>))))"

definition get_task_dependencies :: "database \<Rightarrow> string \<Rightarrow> string list result" where
  "get_task_dependencies db task_id =
     bind_result
       (fetch db Q_task_dependencies task_id
          (filter (\<lambda>r. child_task_id r = task_id) (task_dependencies db)))
       (\<lambda>rows. Inr (map parent_task_id rows))"

text \<open>
  \<open>store_task_context\<close> inserts one row; the insert names no \<open>is_active\<close>, so the row gets
  the column's default, taken to be true (the query of \<open>get_task_context\<close> reads active rows).
\<close>

definition store_task_context :: "database \<Rightarrow> string \<Rightarrow> string \<Rightarrow> pyval \<Rightarrow> database result" where
  "store_task_context db task_id ctype cdata =
     bind_result (fetch db Q_task_context task_id ())
       (\<lambda>_. Inr (db\<lparr>task_context :=
                       \<lparr>cr_task_id = task_id, context_type = ctype,
                        context_data = cdata, is_active = True\<rparr> # task_context db\<rparr>))"

section \<open>ContextStorage\<close>

definition none_or :: "('a \<Rightarrow> pyval) \<Rightarrow> 'a option \<Rightarrow> pyval" where
  "none_or f x = (case x of None \<Rightarrow> PNone | Some v \<Rightarrow> f v)"

definition interaction_dict :: "interaction_row \<Rightarrow> pydict" where
  "interaction_dict row =
     [''agent_name'' \<mapsto> PStr (agent_name row),
      ''interaction_type'' \<mapsto> PStr (interaction_type row),
      ''request_data'' \<mapsto> none_or id (request_data row),
      ''response_data'' \<mapsto> none_or id (response_data row),
      ''execution_time_ms'' \<mapsto> none_or PInt (execution_time_ms row),
      ''success'' \<mapsto> none_or PBool (success row),
      ''error_message'' \<mapsto> none_or PStr (error_message row),
      ''created_at'' \<mapsto> PStr (isoformat (ar_created_at row))]"

definition validation_dict :: "validation_row \<Rightarrow> pydict" where
  "validation_dict row =
     [''validation_type'' \<mapsto> PStr (validation_type row),
      ''validator_name'' \<mapsto> PStr (validator_name row),
      ''status'' \<mapsto> PStr (status row),
      ''score'' \<mapsto> none_or PFloat (score row),
      ''details'' \<mapsto> none_or id (details row),
      ''suggestions'' \<mapsto> none_or id (suggestions row),
      ''created_at'' \<mapsto> PStr (isoformat (vr_created_at row))]"

text \<open>The body of the loop over the context rows: each row overwrites the entry of its type.\<close>

definition process_context_row :: "TaskContext \<Rightarrow> context_row \<Rightarrow> TaskContext" where
  "process_context_row context row =
     (if context_type row = ''requirements''
        then context\<lparr>tc_requirements_context := context_data row\<rparr>
      else if context_type row = ''codebase''
        then context\<lparr>tc_codebase_context := context_data row\<rparr>
      else if context_type row = ''workflow''
        then context\<lparr>tc_workflow_state := context_data row\<rparr>
      else if context_type row = ''performance''
        then context\<lparr>tc_performance_metrics := context_data row\<rparr>
      else context)"

definition new_TaskContext :: "string \<Rightarrow> TaskContext" where
  "new_TaskContext task_id =
     \<lparr> tc_task_id = task_id, tc_requirements_context = PNone, tc_codebase_context = PNone,
       tc_ai_interactions = [], tc_validation_results = [], tc_workflow_state = PNone,
       tc_performance_metrics = PNone, tc_metadata = PNone \<rparr>"

definition context_rows_of :: "database \<Rightarrow> string \<Rightarrow> context_row list" where
  "context_rows_of db task_id =
     filter (\<lambda>r. cr_task_id r = task_id \<and> is_active r) (task_context db)"

definition get_task_context :: "database \<Rightarrow> string \<Rightarrow> TaskContext result" where
  "get_task_context db task_id =
     bind_result (fetch db Q_task_context task_id (context_rows_of db task_id))
       (\<lambda>context_rows.
     bind_result
       (fetch db Q_ai_interactions task_id
          (take 50 (filter (\<lambda>r. ar_task_id r = task_id) (ai_interactions db))))
       (\<lambda>ai_rows.
     bind_result
       (fetch db Q_validation_results task_id
          (take 20 (filter (\<lambda>r. vr_task_id r = task_id) (validation_results db))))
       (\<lambda>validation_rows.
          Inr ((foldl process_context_row (new_TaskContext task_id) context_rows)
                 \<lparr> tc_ai_interactions := map interaction_dict ai_rows,
                   tc_validation_results := map validation_dict validation_rows \<rparr>))))"

section \<open>ContextAggregator\<close>

definition dependency_info_of :: "AtomicTask \<Rightarrow> dependency_info" where
  "dependency_info_of dep_task =
     \<lparr> d_id = t_id dep_task,
       d_title = t_title dep_task,
       d_status = status_value (t_status dep_task),
       d_priority = priority_value (t_priority dep_task),
       d_complexity_score = t_complexity_score dep_task \<rparr>"

text \<open>The loop over the parent ids: a missing parent is skipped, an exception ends the loop.\<close>

fun resolve_dependencies :: "database \<Rightarrow> string list \<Rightarrow> dependency_info list result" where
  "resolve_dependencies db [] = Inr []"
| "resolve_dependencies db (dep_id # rest) =
     bind_result (get_task db dep_id) (\<lambda>dep_task.
     bind_result (resolve_dependencies db rest) (\<lambda>infos.
       Inr (case dep_task of None \<Rightarrow> infos | Some t \<Rightarrow> dependency_info_of t # infos)))"

definition summarize_dependencies :: "dependency_info list \<Rightarrow> dependency_summary" where
  "summarize_dependencies dependency_info =
     (let completed_deps = filter (\<lambda>d. d_status d = ''done'') dependency_info;
          pending_deps = filter (\<lambda>d. d_status d \<in> set [''pending'', ''in-progress'']) dependency_info;
          blocked_deps = filter (\<lambda>d. d_status d \<in> set [''blocked'', ''deferred'']) dependency_info
      in \<lparr> total_dependencies = length dependency_info,
            completed_dependencies = length completed_deps,
            pending_dependencies = length pending_deps,
            blocked_dependencies = length blocked_deps,
            dependencies = dependency_info,
            is_ready = (length pending_deps = 0 \<and> length blocked_deps = 0) \<rparr>)"

definition build_dependency_context ::
  "database \<Rightarrow> string \<Rightarrow> string list \<Rightarrow> dependency_context result" where
  "build_dependency_context db task_id deps =
     (if deps = [] then Inr No_dependencies
      else bind_result (resolve_dependencies db deps)
             (\<lambda>dependency_info. Inr (Has_dependencies (summarize_dependencies dependency_info))))"

definition metric_of :: "metric_row \<Rightarrow> metric" where
  "metric_of row =
     \<lparr> m_type = metric_type row,
       m_name = metric_name row,
       m_value = (if metric_value row \<noteq> 0 then Some (metric_value row) else None),
       m_unit = metric_unit row,
       m_timestamp = isoformat (timestamp row) \<rparr>"

text \<open>The rows that the query of \<open>_get_performance_context\<close> returns: the latest twenty.\<close>

definition latest_samples :: "database \<Rightarrow> string \<Rightarrow> metric_row list" where
  "latest_samples db task_id =
     take 20 (filter (\<lambda>r. mr_task_id r = task_id) (performance_metrics db))"

definition get_performance_context :: "database \<Rightarrow> string \<Rightarrow> performance_context result" where
  "get_performance_context db task_id =
     bind_result (fetch db Q_performance_metrics task_id (latest_samples db task_id))
       (\<lambda>rows.
          if rows = [] then Inr No_metrics
          else
           (let metrics = map metric_of rows;
                exec_times = filter (\<lambda>m. m_type m = ''execution_time'') metrics;
                avg = (if exec_times \<noteq> []
                       then Some (sum_list (truthy_values exec_times) / real (length exec_times))
                       else None)
            in Inr (Has_metrics
                     \<lparr> total_metrics = length metrics,
                       avg_execution_time = avg,
                       recent_metrics = take 10 metrics,
                       ps_execution_times = length exec_times,
                       ps_avg_execution_time_ms = avg \<rparr>)))"

text \<open>The slice \<open>xs[:n]\<close> for an integer \<open>n\<close>.\<close>

definition slice_to :: "int \<Rightarrow> 'a list \<Rightarrow> 'a list" where
  "slice_to n xs = (if n \<ge> 0 then take (nat n) xs else take (length xs - nat (- n)) xs)"

definition task_summary_of :: "AtomicTask \<Rightarrow> task_summary" where
  "task_summary_of task =
     \<lparr> s_id = t_id task,
       s_title = t_title task,
       s_description = t_description task,
       s_status = status_value (t_status task),
       s_priority = priority_value (t_priority task),
       s_complexity_score = t_complexity_score task,
       s_affected_files = t_affected_files task,
       s_tags = t_tags task,
       s_created_at = map_option isoformat (t_created_at task),
       s_updated_at = map_option isoformat (t_updated_at task),
       s_assigned_to = t_assigned_to task,
       s_estimated_hours = t_estimated_hours task,
       s_actual_hours = t_actual_hours task \<rparr>"

definition generate_prompt_context ::
  "database \<Rightarrow> string \<Rightarrow> bool \<Rightarrow> int \<Rightarrow> int \<Rightarrow> PromptContext result" where
  "generate_prompt_context db tid include_history max_interactions max_validations =
     bind_result (get_task_storage db) (\<lambda>_.
     bind_result (get_task db tid) (\<lambda>task_opt.
       case task_opt of
         None \<Rightarrow> Inl (ValueError (''Task '' @ tid @ '' not found''))
       | Some task \<Rightarrow>
     bind_result (get_task_context db tid) (\<lambda>full_context.
     bind_result (get_task_dependencies db tid) (\<lambda>deps.
     bind_result (build_dependency_context db tid deps) (\<lambda>dep_context.
     bind_result (get_performance_context db tid) (\<lambda>perf_context.
       Inr \<lparr> pc_task_id = tid,
             task_summary = task_summary_of task,
             requirements_context = tc_requirements_context full_context,
             codebase_context = tc_codebase_context full_context,
             recent_interactions =
               (if include_history \<and> tc_ai_interactions full_context \<noteq> []
                then Some (slice_to max_interactions (tc_ai_interactions full_context))
                else None),
             validation_history =
               (if include_history \<and> tc_validation_results full_context \<noteq> []
                then Some (slice_to max_validations (tc_validation_results full_context))
                else None),
             dependency_context = Some dep_context,
             performance_context = Some perf_context,
             workflow_state = tc_workflow_state full_context,
             metadata = tc_metadata full_context \<rparr>))))))"

section \<open>AnalyticsEngine\<close>

record ContextAnalytics =
  a_task_id :: string
  complexity_indicators :: complexity_indicators
  interaction_patterns :: "interaction_stats option"
  validation_trends :: "validation_stats option"
  performance_metrics_analysis :: "performance_analysis option"
  a_recommendations :: "string list"

definition analyze_context_patterns :: "database \<Rightarrow> string \<Rightarrow> ContextAnalytics result" where
  "analyze_context_patterns db tid =
     bind_result (generate_prompt_context db tid True 10 5) (\<lambda>prompt_context.
     bind_result (analyze_complexity prompt_context) (\<lambda>complexity.
     bind_result (analyze_interactions (recent_interactions prompt_context)) (\<lambda>interactions.
     bind_result (analyze_validations (validation_history prompt_context)) (\<lambda>validations.
       let performance = analyze_performance (performance_context prompt_context)
       in bind_result (generate_recommendations complexity interactions validations performance)
            (\<lambda>recs.
               Inr \<lparr> a_task_id = tid,
                     complexity_indicators = complexity,
                     interaction_patterns = interactions,
                     validation_trends = validations,
                     performance_metrics_analysis = performance,
                     a_recommendations = recs \<rparr>)))))"

section \<open>ContextFormatter\<close>

text \<open>
  Text is a list of bytes (UTF-8). \<open>str\<close> of an integer is its decimal numeral; \<open>str\<close> of a
  float or of a container is left to the parameter \<open>repr\<close>, Python's own rendering.
\<close>

definition digit_char :: "nat \<Rightarrow> char" where
  "digit_char n = ''0123456789'' ! n"

function str_nat :: "nat \<Rightarrow> string" where
  "str_nat n = (if n < 10 then [digit_char n] else str_nat (n div 10) @ [digit_char (n mod 10)])"
  by pat_completeness auto
termination
  by (relation "measure (\<lambda>n. n)") auto

declare str_nat.simps [simp del]

definition str_int :: "int \<Rightarrow> string" where
  "str_int i = (if i < 0 then CHR ''-'' # str_nat (nat (- i)) else str_nat (nat i))"

definition py_str :: "(pyval \<Rightarrow> string) \<Rightarrow> pyval \<Rightarrow> string" where
  "py_str repr v =
     (case v of
        PNone \<Rightarrow> ''None''
      | PBool b \<Rightarrow> (if b then ''True'' else ''False'')
      | PInt n \<Rightarrow> str_int n
      | PStr s \<Rightarrow> s
      | _ \<Rightarrow> repr v)"

definition str_opt :: "string option \<Rightarrow> string" where
  "str_opt s = (case s of None \<Rightarrow> ''None'' | Some t \<Rightarrow> t)"

text \<open>\<open>sep.join(parts)\<close>.\<close>

fun join :: "string \<Rightarrow> string list \<Rightarrow> string" where
  "join sep [] = []"
| "join sep [x] = x"
| "join sep (x # y # ys) = x @ sep @ join sep (y # ys)"

text \<open>A loop that appends what each element yields; the first exception ends it.\<close>

fun map_result :: "('a \<Rightarrow> 'b result) \<Rightarrow> 'a list \<Rightarrow> 'b list result" where
  "map_result f [] = Inr []"
| "map_result f (x # xs) =
     bind_result (f x) (\<lambda>y. bind_result (map_result f xs) (\<lambda>ys. Inr (y # ys)))"

definition newline :: string where
  "newline = [CHR 0x0A]"

definition summary_lines :: "task_summary \<Rightarrow> string list" where
  "summary_lines ts =
     [''## Task Summary'',
      ''**ID**: '' @ s_id ts,
      ''**Title**: '' @ s_title ts,
      ''**Status**: '' @ s_status ts,
      ''**Priority**: '' @ s_priority ts]
     @ (case s_complexity_score ts of
          None \<Rightarrow> []
        | Some c \<Rightarrow> if c \<noteq> 0 then [''**Complexity**: '' @ str_int c @ ''/10''] else [])
     @ [''**Description**: '' @ str_opt (s_description ts)]"

definition dependency_lines :: "dependency_context option \<Rightarrow> string list" where
  "dependency_lines dc =
     (case dc of
        Some (Has_dependencies dep_ctx) \<Rightarrow>
          [newline @ ''## Dependencies'',
           ''**Total Dependencies**: '' @ str_nat (total_dependencies dep_ctx),
           ''**Completed**: '' @ str_nat (completed_dependencies dep_ctx),
           ''**Pending**: '' @ str_nat (pending_dependencies dep_ctx),
           ''**Ready to Start**: '' @ (if is_ready dep_ctx then ''Yes'' else ''No'')]
      | _ \<Rightarrow> [])"

definition interaction_lines :: "(pyval \<Rightarrow> string) \<Rightarrow> nat \<times> pydict \<Rightarrow> string list result" where
  "interaction_lines repr ni =
     (case snd ni ''interaction_type'' of
        None \<Rightarrow> Inl (KeyError ''interaction_type'')
      | Some ty \<Rightarrow>
         (case snd ni ''agent_name'' of
            None \<Rightarrow> Inl (KeyError ''agent_name'')
          | Some agent \<Rightarrow>
              Inr ([''**Interaction '' @ str_nat (fst ni + 1) @ ''**: '' @ py_str repr ty
                    @ '' by '' @ py_str repr agent]
                   @ (if truthy (dict_get (snd ni) ''error_message'' PNone)
                      then [''  - Error: ''
                            @ py_str repr (dict_get (snd ni) ''error_message'' PNone)]
                      else []))))"

definition status_emoji :: "pyval \<Rightarrow> string" where
  "status_emoji st =
     (if st = PStr ''passed'' then [CHR 0xE2, CHR 0x9C, CHR 0x85]
      else if st = PStr ''failed'' then [CHR 0xE2, CHR 0x9D, CHR 0x8C]
      else [CHR 0xE2, CHR 0x9A, CHR 0xA0, CHR 0xEF, CHR 0xB8, CHR 0x8F])"

definition validation_line :: "(pyval \<Rightarrow> string) \<Rightarrow> pydict \<Rightarrow> string result" where
  "validation_line repr validation =
     (case validation ''status'' of
        None \<Rightarrow> Inl (KeyError ''status'')
      | Some st \<Rightarrow>
         (case validation ''validation_type'' of
            None \<Rightarrow> Inl (KeyError ''validation_type'')
          | Some vt \<Rightarrow>
             (case validation ''validator_name'' of
                None \<Rightarrow> Inl (KeyError ''validator_name'')
              | Some vn \<Rightarrow>
                  Inr (status_emoji st @ '' **'' @ py_str repr vt @ ''**: '' @ py_str repr st
                       @ '' ('' @ py_str repr vn @ '')''))))"

definition format_structured_context :: "(pyval \<Rightarrow> string) \<Rightarrow> PromptContext \<Rightarrow> string result" where
  "format_structured_context repr context =
     bind_result
       (case recent_interactions context of
          Some (i # rest) \<Rightarrow>
            bind_result (map_result (interaction_lines repr) (enumerate 0 (take 3 (i # rest))))
              (\<lambda>ls. Inr ((newline @ ''## Recent AI Interactions'') # concat ls))
        | _ \<Rightarrow> Inr [])
       (\<lambda>interaction_section.
     bind_result
       (case validation_history context of
          Some (v # rest) \<Rightarrow>
            bind_result (map_result (validation_line repr) (take 3 (v # rest)))
              (\<lambda>ls. Inr ((newline @ ''## Recent Validations'') # ls))
        | _ \<Rightarrow> Inr [])
       (\<lambda>validation_section.
          Inr (join newline
                 (summary_lines (task_summary context)
                  @ dependency_lines (dependency_context context)
                  @ interaction_section
                  @ validation_section
                  @ (if truthy (codebase_context context)
                     then [newline @ ''## Codebase Context'',
                           ''Recent file changes and code context available'']
                     else [])))))"

definition intro_sentences :: "task_summary \<Rightarrow> string list" where
  "intro_sentences task =
     [''You are working on task '' @ quoted (s_title task) @ '' (ID: '' @ s_id task
      @ ''), which is currently '' @ s_status task @ '' with '' @ s_priority task
      @ '' priority.'']
     @ (case s_description task of
          None \<Rightarrow> []
        | Some d \<Rightarrow> if d \<noteq> [] then [''The task involves: '' @ d] else [])"

definition dependency_sentence :: "dependency_context option \<Rightarrow> string list" where
  "dependency_sentence dc =
     (case dc of
        Some (Has_dependencies dep_ctx) \<Rightarrow>
          (if is_ready dep_ctx
           then [''All dependencies have been satisfied and the task is ready to begin.'']
           else [''This task has '' @ str_nat (pending_dependencies dep_ctx)
                 @ '' pending dependencies that must be completed first.''])
      | _ \<Rightarrow> [])"

definition complexity_sentence :: "int option \<Rightarrow> string list" where
  "complexity_sentence sc =
     (case sc of
        None \<Rightarrow> []
      | Some c \<Rightarrow>
          if c = 0 then []
          else
           (let desc = (if 1 \<le> c \<and> c < 4 then Some ''low complexity''
                        else if 4 \<le> c \<and> c < 7 then Some ''medium complexity''
                        else if 7 \<le> c \<and> c < 9 then Some ''high complexity''
                        else if 9 \<le> c \<and> c < 11 then Some ''very high complexity''
                        else None)
            in case desc of
                 None \<Rightarrow> []
               | Some d \<Rightarrow> [''This is a '' @ d @ '' task (score: '' @ str_int c @ ''/10).'']))"

text \<open>The number of errors that the narrative counts: \<open>not i.get('success', True)\<close>.\<close>

definition narrative_error_count :: "pydict list \<Rightarrow> nat" where
  "narrative_error_count interactions =
     length (filter (\<lambda>i. \<not> truthy (dict_get i ''success'' (PBool True))) interactions)"

definition interaction_sentence :: "pydict list option \<Rightarrow> string list" where
  "interaction_sentence interactions =
     (case interactions of
        Some (i # rest) \<Rightarrow>
          (let interaction_count = length (i # rest);
               errors = narrative_error_count (i # rest)
           in if errors > 0
              then [''There have been '' @ str_nat interaction_count
                    @ '' recent AI interactions with '' @ str_nat errors
                    @ '' errors that may need attention.'']
              else [''There have been '' @ str_nat interaction_count
                    @ '' successful recent AI interactions.''])
      | _ \<Rightarrow> [])"

definition validation_sentence :: "pydict list option \<Rightarrow> string list result" where
  "validation_sentence validations =
     (case validations of
        Some (v # rest) \<Rightarrow>
          bind_result
            (map_result (\<lambda>w. case w ''status'' of None \<Rightarrow> Inl (KeyError ''status'')
                                | Some st \<Rightarrow> Inr (st = PStr ''passed''))
               (take 3 (v # rest)))
            (\<lambda>flags. Inr [''Recent validation results show '' @ str_nat (length (filter id flags))
                           @ ''/'' @ str_nat (length (take 3 (v # rest))) @ '' checks passing.''])
      | _ \<Rightarrow> Inr [])"

definition format_narrative_context :: "PromptContext \<Rightarrow> string result" where
  "format_narrative_context context =
     bind_result (validation_sentence (validation_history context))
       (\<lambda>validation_part.
          Inr (join '' ''
                 (intro_sentences (task_summary context)
                  @ dependency_sentence (dependency_context context)
                  @ complexity_sentence (s_complexity_score (task_summary context))
                  @ interaction_sentence (recent_interactions context)
                  @ validation_part)))"

text \<open>
  \<open>export_context_for_prompt\<close>. \<open>dumps\<close> stands for
  \<open>json.dumps(context.__dict__, indent=2, default=str)\<close>.
\<close>

definition export_context_for_prompt ::
  "(pyval \<Rightarrow> string) \<Rightarrow> (PromptContext \<Rightarrow> string) \<Rightarrow> database \<Rightarrow> string \<Rightarrow> string
   \<Rightarrow> string result" where
  "export_context_for_prompt repr dumps db tid format_type =
     bind_result (generate_prompt_context db tid True 10 5)
       (\<lambda>context.
          if format_type = ''structured'' then format_structured_context repr context
          else if format_type = ''narrative'' then format_narrative_context context
          else if format_type = ''json'' then Inr (dumps context)
          else Inl (ValueError (''Unsupported format type: '' @ format_type)))"

section \<open>HealthScorer\<close>

record component_scores =
  interaction_health :: real
  validation_health :: real
  performance_health :: real
  complexity_health :: real

text \<open>
  The health dictionary: the report proper carries the component scores and the
  recommendations, the fallback carries \<open>error\<close>.
\<close>

record health_report =
  overall_score :: real
  health_status :: string
  scores :: "component_scores option"
  recommendations :: "string list option"
  error :: "string option"
  last_updated :: string

definition interaction_health_of :: "interaction_stats option \<Rightarrow> real" where
  "interaction_health_of ip =
     (case ip of
        None \<Rightarrow> 50
      | Some i \<Rightarrow>
         (let time_score = (case avg_execution_time_ms i of
                              None \<Rightarrow> 100
                            | Some avg_time \<Rightarrow>
                                if avg_time \<noteq> 0 then max 0 (100 - avg_time / 100) else 100)
          in success_rate i * 70 + time_score * 0.3))"

definition validation_health_of :: "validation_stats option \<Rightarrow> real" where
  "validation_health_of vt =
     (case vt of
        None \<Rightarrow> 50
      | Some v \<Rightarrow>
         (let trend_bonus = (if recent_trend v = ''improving'' then 10
                             else if recent_trend v = ''stable'' then 0
                             else if recent_trend v = ''declining'' then - 20
                             else 0)
          in min 100 (max 0 (pass_rate v * 100 + trend_bonus))))"

definition performance_health_of :: "performance_analysis option \<Rightarrow> real" where
  "performance_health_of pm =
     (case pm of
        None \<Rightarrow> 50
      | Some p \<Rightarrow>
          if execution_time_trend p = ''improving'' then 90
          else if execution_time_trend p = ''stable'' then 70
          else if execution_time_trend p = ''declining'' then 40
          else 50)"

definition complexity_health_of :: "complexity_indicators \<Rightarrow> real" where
  "complexity_health_of ci =
     (if overall_complexity ci = ''low'' then 90
      else if overall_complexity ci = ''medium'' then 70
      else if overall_complexity ci = ''high'' then 50
      else if overall_complexity ci = ''very_high'' then 30
      else 50)"

definition component_scores_of :: "ContextAnalytics \<Rightarrow> component_scores" where
  "component_scores_of analytics =
     \<lparr> interaction_health = interaction_health_of (interaction_patterns analytics),
       validation_health = validation_health_of (validation_trends analytics),
       performance_health = performance_health_of (performance_metrics_analysis analytics),
       complexity_health = complexity_health_of (complexity_indicators analytics) \<rparr>"

definition weighted_score :: "component_scores \<Rightarrow> real" where
  "weighted_score sc =
     interaction_health sc * 0.3 + validation_health sc * 0.3
     + performance_health sc * 0.2 + complexity_health sc * 0.2"

definition status_of_score :: "real \<Rightarrow> string" where
  "status_of_score x =
     (if x \<ge> 80 then ''excellent''
      else if x \<ge> 60 then ''good''
      else if x \<ge> 40 then ''fair''
      else ''poor'')"

text \<open>\<open>round(x, 1)\<close>: to one decimal, a tie going to the even digit.\<close>

definition round1 :: "real \<Rightarrow> real" where
  "round1 x =
     (let f = \<lfloor>x * 10\<rfloor>; d = x * 10 - of_int f
      in if d < 1 / 2 then of_int f / 10
         else if d > 1 / 2 then of_int (f + 1) / 10
         else if even f then of_int f / 10 else of_int (f + 1) / 10)"

definition health_of_analytics :: "ContextAnalytics \<Rightarrow> string \<Rightarrow> health_report" where
  "health_of_analytics analytics now =
     (let sc = component_scores_of analytics;
          total = weighted_score sc
      in \<lparr> overall_score = round1 total,
            health_status = status_of_score total,
            scores = Some sc,
            recommendations = Some (a_recommendations analytics),
            error = None,
            last_updated = now \<rparr>)"

definition degraded_report :: "py_error \<Rightarrow> string \<Rightarrow> health_report" where
  "degraded_report e now =
     \<lparr> overall_score = 0,
       health_status = ''error'',
       scores = None,
       recommendations = None,
       error = Some (str_error e),
       last_updated = now \<rparr>"

text \<open>\<open>try: body except Exception as e: handler\<close>.\<close>

definition try_except :: "'a result \<Rightarrow> (py_error \<Rightarrow> 'a result) \<Rightarrow> 'a result" where
  "try_except body handler = (case body of Inl e \<Rightarrow> handler e | Inr x \<Rightarrow> Inr x)"

text \<open>\<open>get_context_health_score\<close>; \<open>now\<close> is the text of \<open>datetime.now().isoformat()\<close>.\<close>

definition get_context_health_score :: "database \<Rightarrow> string \<Rightarrow> string \<Rightarrow> health_report result" where
  "get_context_health_score db tid now =
     try_except
       (bind_result (analyze_context_patterns db tid)
          (\<lambda>analytics. Inr (health_of_analytics analytics now)))
       (\<lambda>e. Inr (degraded_report e now))"

section \<open>Notions used in the statements\<close>

text \<open>The status entries of a list of validation dictionaries.\<close>

definition statuses :: "pydict list \<Rightarrow> pyval list" where
  "statuses vs = map (\<lambda>v. dict_get v ''status'' PNone) vs"

text \<open>The parents that resolve: the ids for which \<open>get_task\<close> returns a task.\<close>

definition resolved_parents :: "database \<Rightarrow> string list \<Rightarrow> AtomicTask list" where
  "resolved_parents db deps =
     List.map_filter (\<lambda>d. case get_task db d of Inr (Some t) \<Rightarrow> Some t | _ \<Rightarrow> None) deps"

text \<open>The samples of type \<open>execution_time\<close> among the latest twenty of a task.\<close>

definition execution_time_samples :: "database \<Rightarrow> string \<Rightarrow> metric_row list" where
  "execution_time_samples db task_id =
     filter (\<lambda>r. metric_type r = ''execution_time'') (latest_samples db task_id)"

text \<open>A record counts as an error when its \<open>success\<close> entry is present and falsy.\<close>

definition present_and_falsy :: "pydict \<Rightarrow> bool" where
  "present_and_falsy i = (case i ''success'' of None \<Rightarrow> False | Some v \<Rightarrow> \<not> truthy v)"

text \<open>What lets one step of the interaction loop go through.\<close>

definition step_ok :: "pydict \<Rightarrow> bool" where
  "step_ok i =
     (hashable (dict_get i ''interaction_type'' (PStr ''unknown''))
      \<and> (if truthy (dict_get i ''execution_time_ms'' PNone)
         then py_num (dict_get i ''execution_time_ms'' PNone) \<noteq> None
         else True))"

text \<open>
  The rule list of the recommendations as the specification words it: each rule is a
  condition on the four analyses and the advisory it emits; all matching rules are emitted,
  in the order of the list. A rate or a time that the analysis does not report matches no
  threshold.
\<close>

type_synonym analyses =
  "complexity_indicators \<times> interaction_stats option \<times> validation_stats option
   \<times> performance_analysis option"

definition rule_very_high :: "analyses \<Rightarrow> bool" where
  "rule_very_high r = (case r of (c, i, v, p) \<Rightarrow> overall_complexity c = ''very_high'')"

definition rule_high :: "analyses \<Rightarrow> bool" where
  "rule_high r = (case r of (c, i, v, p) \<Rightarrow> overall_complexity c = ''high'')"

definition rule_dependencies :: "analyses \<Rightarrow> bool" where
  "rule_dependencies r = (case r of (c, i, v, p) \<Rightarrow> dependency_count c > 3)"

definition rule_error_rate :: "analyses \<Rightarrow> bool" where
  "rule_error_rate r =
     (case r of (c, i, v, p) \<Rightarrow> (case i of None \<Rightarrow> False | Some s \<Rightarrow> error_rate s > 0.3))"

definition rule_slow :: "analyses \<Rightarrow> bool" where
  "rule_slow r =
     (case r of (c, i, v, p) \<Rightarrow>
        (case i of None \<Rightarrow> False
         | Some s \<Rightarrow> (case avg_execution_time_ms s of None \<Rightarrow> False | Some t \<Rightarrow> t > 5000)))"

definition rule_pass_rate :: "analyses \<Rightarrow> bool" where
  "rule_pass_rate r =
     (case r of (c, i, v, p) \<Rightarrow> (case v of None \<Rightarrow> False | Some s \<Rightarrow> pass_rate s < 0.7))"

definition rule_validation_trend :: "analyses \<Rightarrow> bool" where
  "rule_validation_trend r =
     (case r of (c, i, v, p) \<Rightarrow>
        (case v of None \<Rightarrow> False | Some s \<Rightarrow> recent_trend s = ''declining''))"

definition rule_performance_trend :: "analyses \<Rightarrow> bool" where
  "rule_performance_trend r =
     (case r of (c, i, v, p) \<Rightarrow>
        (case p of None \<Rightarrow> False | Some s \<Rightarrow> execution_time_trend s = ''declining''))"

definition rule_no_interactions :: "analyses \<Rightarrow> bool" where
  "rule_no_interactions r = (case r of (c, i, v, p) \<Rightarrow> i = None)"

definition rule_no_validations :: "analyses \<Rightarrow> bool" where
  "rule_no_validations r = (case r of (c, i, v, p) \<Rightarrow> v = None)"

definition spec_rules :: "((analyses \<Rightarrow> bool) \<times> string) list" where
  "spec_rules =
     [(rule_very_high, rec_very_high),
      (rule_dependencies, rec_dependencies),
      (rule_error_rate, rec_error_rate),
      (rule_slow, rec_slow),
      (rule_pass_rate, rec_pass_rate),
      (rule_validation_trend, rec_validation_trend),
      (rule_performance_trend, rec_performance_trend),
      (rule_no_interactions, rec_no_interactions),
      (rule_no_validations, rec_no_validations)]"

text \<open>The same list with the rule for high complexity after the one for very high.\<close>

definition amended_rules :: "((analyses \<Rightarrow> bool) \<times> string) list" where
  "amended_rules =
     [(rule_very_high, rec_very_high),
      (rule_high, rec_high),
      (rule_dependencies, rec_dependencies),
      (rule_error_rate, rec_error_rate),
      (rule_slow, rec_slow),
      (rule_pass_rate, rec_pass_rate),
      (rule_validation_trend, rec_validation_trend),
      (rule_performance_trend, rec_performance_trend),
      (rule_no_interactions, rec_no_interactions),
      (rule_no_validations, rec_no_validations)]"

definition matching :: "((analyses \<Rightarrow> bool) \<times> string) list \<Rightarrow> analyses \<Rightarrow> string list" where
  "matching rules r = map snd (filter (\<lambda>rule. fst rule r) rules)"

text \<open>Whether the interaction statistics are absent or report an average time.\<close>

definition timing_known :: "interaction_stats option \<Rightarrow> bool" where
  "timing_known i = (case i of None \<Rightarrow> True | Some s \<Rightarrow> avg_execution_time_ms s \<noteq> None)"

text \<open>The entry of the context bundle that a prompt context exposes for a context type.\<close>

definition exposed :: "string \<Rightarrow> PromptContext \<Rightarrow> pyval" where
  "exposed ty c =
     (if ty = ''requirements'' then requirements_context c
      else if ty = ''codebase'' then codebase_context c
      else if ty = ''workflow'' then workflow_state c
      else PNone)"

text \<open>The active rows of a context type that are stored for a task.\<close>

definition stored_rows :: "database \<Rightarrow> string \<Rightarrow> string \<Rightarrow> context_row list" where
  "stored_rows db task_id ty = filter (\<lambda>r. context_type r = ty) (context_rows_of db task_id)"

section \<open>Example data\<close>

text \<open>
  A small database: task-001 depends on task-002 (done), on task-003 (pending) and on a
  task that does not exist; it has two interactions, the five validations of the scenario
  passed, passed, failed, passed, failed (newest first) and four performance samples.
\<close>

definition example_task_row :: "string \<Rightarrow> string \<Rightarrow> task_row" where
  "example_task_row ident st =
     \<lparr> tr_id = ident,
       tr_title = ''Implement login'',
       tr_description = Some ''JWT based login'',
       tr_affected_files = Some [''auth/models.py'', ''auth/views.py'', ''auth/serializers.py''],
       tr_complexity_score = Some 8,
       tr_status = st,
       tr_priority = ''high'',
       tr_created_at = Some ''2024-01-01T09:00:00'',
       tr_updated_at = None,
       tr_assigned_to = None,
       tr_estimated_hours = None,
       tr_actual_hours = None,
       tr_tags = None \<rparr>"

definition example_interaction_row :: "int option \<Rightarrow> bool option \<Rightarrow> interaction_row" where
  "example_interaction_row ms ok =
     \<lparr> ar_task_id = ''task-001'',
       agent_name = ''codegen'',
       interaction_type = ''prompt'',
       request_data = None,
       response_data = None,
       execution_time_ms = ms,
       success = ok,
       error_message = None,
       ar_created_at = ''2024-01-02T10:00:00'' \<rparr>"

definition example_validation_row :: "string \<Rightarrow> validation_row" where
  "example_validation_row st =
     \<lparr> vr_task_id = ''task-001'',
       validation_type = ''unit_tests'',
       validator_name = ''pytest'',
       status = st,
       score = None,
       details = None,
       suggestions = None,
       vr_created_at = ''2024-01-03T10:00:00'' \<rparr>"

definition example_metric_row :: "string \<Rightarrow> real \<Rightarrow> metric_row" where
  "example_metric_row ty v =
     \<lparr> mr_task_id = ''task-001'',
       metric_type = ty,
       metric_name = ''run'',
       metric_value = v,
       metric_unit = Some ''ms'',
       timestamp = ''2024-01-04T10:00:00'' \<rparr>"

definition example_db :: database where
  "example_db =
     \<lparr> pool = True,
       tasks = [example_task_row ''task-001'' ''in-progress'',
                example_task_row ''task-002'' ''done'',
                example_task_row ''task-003'' ''pending''],
       task_dependencies =
         [\<lparr>parent_task_id = ''task-002'', child_task_id = ''task-001'', dependency_type = ''blocks''\<rparr>,
          \<lparr>parent_task_id = ''task-404'', child_task_id = ''task-001'', dependency_type = ''blocks''\<rparr>,
          \<lparr>parent_task_id = ''task-003'', child_task_id = ''task-001'', dependency_type = ''requires''\<rparr>],
       task_context =
         [\<lparr>cr_task_id = ''task-001'', context_type = ''codebase'',
           context_data = PDict [(''architecture'', PStr ''REST'')], is_active = True\<rparr>],
       ai_interactions =
         [example_interaction_row (Some 1200) (Some True),
          example_interaction_row (Some 800) (Some False)],
       validation_results =
         map example_validation_row [''passed'', ''passed'', ''failed'', ''passed'', ''failed''],
       performance_metrics =
         [example_metric_row ''execution_time'' 100,
          example_metric_row ''memory'' 512,
          example_metric_row ''execution_time'' 0,
          example_metric_row ''execution_time'' 200],
       failing = (\<lambda>q t. None) \<rparr>"

definition six_files :: "string list" where
  "six_files = [''a.py'', ''b.py'', ''c.py'', ''d.py'', ''e.py'', ''f.py'']"

definition scenario_B :: "pydict list" where
  "scenario_B =
     map validation_dict
       (map example_validation_row [''passed'', ''passed'', ''failed'', ''passed'', ''failed''])"

text \<open>An interaction dictionary without a \<open>success\<close> entry.\<close>

definition bare_interaction :: pydict where
  "bare_interaction =
     [''agent_name'' \<mapsto> PStr ''codegen'', ''interaction_type'' \<mapsto> PStr ''response'',
      ''execution_time_ms'' \<mapsto> PInt 400]"

text \<open>The example database with a storage fault in the query for the validation results.\<close>

definition faulty_db :: database where
  "faulty_db =
     example_db\<lparr>failing :=
       (\<lambda>q t. if q = Q_validation_results then Some ''connection lost'' else None)\<rparr>"

text \<open>The example database whose only interaction reports a negative execution time.\<close>

definition negative_time_db :: database where
  "negative_time_db =
     example_db\<lparr>ai_interactions := [example_interaction_row (Some (- 100000)) (Some True)]\<rparr>"

text \<open>Stand-ins for Python's rendering of floats and containers and for \<open>json.dumps\<close>.\<close>

definition plain_repr :: "pyval \<Rightarrow> string" where
  "plain_repr v = ''<value>''"

definition plain_dumps :: "PromptContext \<Rightarrow> string" where
  "plain_dumps c = ''{}''"

text \<open>Sample analyses: a task of high complexity, without interactions and validations.\<close>

definition high_complexity :: complexity_indicators where
  "high_complexity =
     \<lparr> complexity_score = Some 8, affected_files_count = 3, has_dependencies = False,
       dependency_count = 0, requirements_complexity = ''low'',
       overall_complexity = ''high'' \<rparr>"

definition slow_interactions :: interaction_stats where
  "slow_interactions =
     \<lparr> total_interactions = 2, interaction_types = Map.empty, error_count = 1,
       error_rate = 1 / 2, avg_execution_time_ms = Some 6000, success_rate = 1 / 2 \<rparr>"

text \<open>The example database whose interactions report no execution time.\<close>

definition untimed_db :: database where
  "untimed_db = example_db\<lparr>ai_interactions := [example_interaction_row None (Some True)]\<rparr>"

text \<open>
  Three writes to task-001 of the example database, in this order: requirements \<open>first\<close>,
  requirements \<open>second\<close>, metadata \<open>meta\<close>; then the prompt context is generated.
\<close>

definition snapshot_after_writes :: "PromptContext result" where
  "snapshot_after_writes =
     bind_result (store_task_context example_db ''task-001'' ''requirements'' (PStr ''first''))
       (\<lambda>db1.
     bind_result (store_task_context db1 ''task-001'' ''requirements'' (PStr ''second''))
       (\<lambda>db2.
     bind_result (store_task_context db2 ''task-001'' ''metadata'' (PStr ''meta''))
       (\<lambda>db3. generate_prompt_context db3 ''task-001'' True 10 5)))"

section \<open>Complexity bucket: monotonicity\<close>

lemma score_factor_mono: "s1 \<le> s2 \<Longrightarrow> score_factor (Some s1) \<le> score_factor (Some s2)"
  by (auto simp: score_factor_def)

lemma files_factor_mono: "n1 \<le> n2 \<Longrightarrow> files_factor n1 \<le> files_factor n2"
  by (auto simp: files_factor_def)

lemma bucket_mono:
  "a \<le> b \<Longrightarrow> bucket_rank (complexity_bucket a) \<le> bucket_rank (complexity_bucket b)"
  by (auto simp: bucket_rank_def complexity_bucket_def)

lemma analyze_complexity_Inr:
  assumes "analyze_complexity c = Inr r"
  shows "\<exists>files dc. s_affected_files (task_summary c) = Some files
           \<and> dependency_context c = Some dc
           \<and> overall_complexity r =
               complexity_bucket
                 (score_factor (s_complexity_score (task_summary c))
                  + files_factor (length files)
                  + dependency_factor
                      (case dc of No_dependencies \<Rightarrow> 0
                       | Has_dependencies d \<Rightarrow> total_dependencies d))"
  using assms by (auto simp: analyze_complexity_def Let_def split: option.splits)

lemma analyze_complexity_succeeds:
  assumes "s_affected_files (task_summary c) = Some files" "dependency_context c = Some dc"
  shows "\<exists>r. analyze_complexity c = Inr r"
  using assms by (simp add: analyze_complexity_def Let_def)

text \<open>
  C8. Take a context whose complexity analysis succeeds, and replace its complexity score
  \<open>x1\<close> by a score \<open>x2 \<ge> x1\<close> and its file list by one that is at least as long, leaving
  everything else as it is. Then the analysis succeeds again and the bucket does not go down
  in the order low < medium < high < very\_high. With the file list unchanged this is
  monotonicity in the score, with the score unchanged monotonicity in the number of files.
\<close>

theorem complexity_bucket_monotone:
  assumes r1: "analyze_complexity c1 = Inr r1"
    and c2: "c2 = c1\<lparr>task_summary :=
                      (task_summary c1)\<lparr>s_complexity_score := Some x2,
                                         s_affected_files := Some f2\<rparr>\<rparr>"
    and x1: "s_complexity_score (task_summary c1) = Some x1"
    and f1: "s_affected_files (task_summary c1) = Some f1"
    and le: "x1 \<le> x2" "length f1 \<le> length f2"
  shows "\<exists>r2. analyze_complexity c2 = Inr r2 \<and>
           bucket_rank (overall_complexity r1) \<le> bucket_rank (overall_complexity r2)"
proof -
  from analyze_complexity_Inr[OF r1] f1 x1 obtain dc where
    dc: "dependency_context c1 = Some dc" and
    o1: "overall_complexity r1 =
           complexity_bucket
             (score_factor (Some x1) + files_factor (length f1)
              + dependency_factor
                  (case dc of No_dependencies \<Rightarrow> 0
                   | Has_dependencies d \<Rightarrow> total_dependencies d))"
    by auto
  have s2: "s_affected_files (task_summary c2) = Some f2" "dependency_context c2 = Some dc"
    "s_complexity_score (task_summary c2) = Some x2"
    using c2 dc by simp_all
  from analyze_complexity_succeeds[OF s2(1,2)] obtain r2
    where r2: "analyze_complexity c2 = Inr r2" ..
  from analyze_complexity_Inr[OF r2] s2 have
    o2: "overall_complexity r2 =
           complexity_bucket
             (score_factor (Some x2) + files_factor (length f2)
              + dependency_factor
                  (case dc of No_dependencies \<Rightarrow> 0
                   | Has_dependencies d \<Rightarrow> total_dependencies d))"
    by auto
  have "score_factor (Some x1) + files_factor (length f1)
        \<le> score_factor (Some x2) + files_factor (length f2)"
    using score_factor_mono[OF le(1)] files_factor_mono[OF le(2)] by linarith
  then show ?thesis using r2 o1 o2 by (auto intro!: bucket_mono)
qed

theorem complexity_bucket_monotone_witness:
  "\<exists>c1 r1 r2.
     generate_prompt_context example_db ''task-001'' True 10 5 = Inr c1
     \<and> analyze_complexity c1 = Inr r1
     \<and> analyze_complexity
          (c1\<lparr>task_summary := (task_summary c1)\<lparr>s_complexity_score := Some 9,
                                                 s_affected_files := Some six_files\<rparr>\<rparr>) = Inr r2
     \<and> bucket_rank (overall_complexity r1) \<le> bucket_rank (overall_complexity r2)"
proof -
  have "(case generate_prompt_context example_db ''task-001'' True 10 5 of
           Inr c \<Rightarrow> s_complexity_score (task_summary c) = Some 8
                  \<and> s_affected_files (task_summary c)
                      = Some [''auth/models.py'', ''auth/views.py'', ''auth/serializers.py'']
                  \<and> dependency_context c \<noteq> None
         | Inl e \<Rightarrow> False)"
    by code_simp
  then obtain c1 where c1: "generate_prompt_context example_db ''task-001'' True 10 5 = Inr c1"
    and x1: "s_complexity_score (task_summary c1) = Some 8"
    and f1: "s_affected_files (task_summary c1)
               = Some [''auth/models.py'', ''auth/views.py'', ''auth/serializers.py'']"
    and d1: "dependency_context c1 \<noteq> None"
    by (auto split: sum.splits)
  from d1 obtain dc where "dependency_context c1 = Some dc" by auto
  from analyze_complexity_succeeds[OF f1 this] obtain r1
    where r1: "analyze_complexity c1 = Inr r1" ..
  have "length [''auth/models.py'', ''auth/views.py'', ''auth/serializers.py'']
        \<le> length six_files"
    by (simp add: six_files_def)
  from complexity_bucket_monotone[OF r1 refl x1 f1 _ this, of 9]
  show ?thesis using c1 r1 by auto
qed

section \<open>Validation trend\<close>

text \<open>
  C6, as stated: the five validations passed, passed, failed, passed, failed would be cut into
  a recent half of three records with pass rate 2/3 and an older half of two records with
  pass rate 1/2. The cut is at \<open>5 // 2 = 2\<close>, so this is not what the code computes.
\<close>

theorem scenario_B_split_counterexample:
  "\<not> (length (recent_half scenario_B) = 3
      \<and> half_pass_rate (recent_half scenario_B) = 2 / 3
      \<and> length (older_half scenario_B) = 2
      \<and> half_pass_rate (older_half scenario_B) = 1 / 2)"
  by code_simp

lemma scenario_B_analysis:
  "(case analyze_validations (Some scenario_B) of
      Inr (Some v) \<Rightarrow> total_validations v = 5 \<and> pass_rate v = 3 / 5 \<and> recent_trend v = ''improving''
    | _ \<Rightarrow> False)"
  by code_simp

lemma scenario_B_halves:
  "statuses (recent_half scenario_B) = [PStr ''passed'', PStr ''passed'']"
  "statuses (older_half scenario_B) = [PStr ''failed'', PStr ''passed'', PStr ''failed'']"
  "half_pass_rate (recent_half scenario_B) = 1"
  "half_pass_rate (older_half scenario_B) = 1 / 3"
  by code_simp+

text \<open>
  C6, amended. For the five validations passed, passed, failed, passed, failed (newest first)
  the analysis yields the pass rate 3/5; the cut at \<open>5 // 2 = 2\<close> makes the recent half
  passed, passed (pass rate 1) and the older half failed, passed, failed (pass rate 1/3), and
  the trend is improving. A list of fewer than three records has the trend
  insufficient\_data, whatever it holds.
\<close>

theorem validation_trend_scenario_B:
  "(case analyze_validations (Some scenario_B) of
      Inr (Some v) \<Rightarrow> total_validations v = 5 \<and> pass_rate v = 3 / 5 \<and> recent_trend v = ''improving''
    | _ \<Rightarrow> False)
   \<and> statuses (recent_half scenario_B) = [PStr ''passed'', PStr ''passed'']
   \<and> statuses (older_half scenario_B) = [PStr ''failed'', PStr ''passed'', PStr ''failed'']
   \<and> half_pass_rate (recent_half scenario_B) = 1
   \<and> half_pass_rate (older_half scenario_B) = 1 / 3
   \<and> calculate_validation_trend scenario_B = ''improving''
   \<and> (\<forall>vs. length vs < 3 \<longrightarrow> calculate_validation_trend vs = ''insufficient_data'')"
proof -
  have t: "calculate_validation_trend scenario_B = ''improving''" by code_simp
  have s: "\<forall>vs. length vs < 3 \<longrightarrow> calculate_validation_trend vs = ''insufficient_data''"
    by (simp add: calculate_validation_trend_def)
  show ?thesis using scenario_B_analysis scenario_B_halves t s by blast
qed

theorem validation_trend_scenario_B_witness:
  "calculate_validation_trend
     (map validation_dict (map example_validation_row [''failed'', ''passed'']))
   = ''insufficient_data''"
  using validation_trend_scenario_B by simp

section \<open>Dependencies\<close>

lemma resolve_dependencies_resolved:
  "resolve_dependencies db deps = Inr infos \<Longrightarrow>
   infos = map dependency_info_of (resolved_parents db deps)"
proof (induction deps arbitrary: infos)
  case Nil
  then show ?case by (simp add: resolved_parents_def List.map_filter_simps)
next
  case (Cons d deps)
  then show ?case
    by (auto simp: resolved_parents_def List.map_filter_simps bind_result_def
             split: sum.splits option.splits)
qed

text \<open>
  C3. When at least one parent of the task resolves, the dependency context is the full
  summary: its list holds the resolved parents, in order; the completed count is the number
  of parents with status done, the pending count the number with status pending or
  in-progress, the blocked count the number with status blocked or deferred; the readiness
  flag says that the pending and the blocked count are both zero. So the task is ready when
  all resolved parents are done, and not ready when one of them is pending, in-progress,
  blocked or deferred.
\<close>

theorem dependency_summary_readiness:
  assumes "build_dependency_context db tid deps = Inr dc"
    and "resolved_parents db deps \<noteq> []"
  shows "\<exists>s. dc = Has_dependencies s
     \<and> dependencies s = map dependency_info_of (resolved_parents db deps)
     \<and> total_dependencies s = length (dependencies s)
     \<and> completed_dependencies s = length (filter (\<lambda>d. d_status d = ''done'') (dependencies s))
     \<and> pending_dependencies s
         = length (filter (\<lambda>d. d_status d = ''pending'' \<or> d_status d = ''in-progress'')
                     (dependencies s))
     \<and> blocked_dependencies s
         = length (filter (\<lambda>d. d_status d = ''blocked'' \<or> d_status d = ''deferred'')
                     (dependencies s))
     \<and> is_ready s = (pending_dependencies s = 0 \<and> blocked_dependencies s = 0)
     \<and> ((\<forall>d \<in> set (dependencies s). d_status d = ''done'') \<longrightarrow> is_ready s)
     \<and> ((\<exists>d \<in> set (dependencies s).
            d_status d = ''pending'' \<or> d_status d = ''in-progress''
            \<or> d_status d = ''blocked'' \<or> d_status d = ''deferred'') \<longrightarrow> \<not> is_ready s)"
proof -
  from assms(2) have ne: "deps \<noteq> []" by (auto simp: resolved_parents_def List.map_filter_simps)
  with assms(1) obtain infos where r: "resolve_dependencies db deps = Inr infos"
    and dc: "dc = Has_dependencies (summarize_dependencies infos)"
    by (auto simp: build_dependency_context_def bind_result_def split: sum.splits)
  from resolve_dependencies_resolved[OF r]
  have infos: "infos = map dependency_info_of (resolved_parents db deps)" .
  let ?s = "summarize_dependencies infos"
  have d: "dependencies ?s = infos" by (simp add: summarize_dependencies_def Let_def)
  have "dc = Has_dependencies ?s" by (rule dc)
  moreover have "dependencies ?s = map dependency_info_of (resolved_parents db deps)"
    using d infos by simp
  moreover have "total_dependencies ?s = length (dependencies ?s)"
    by (simp add: summarize_dependencies_def Let_def)
  moreover have "completed_dependencies ?s
      = length (filter (\<lambda>d. d_status d = ''done'') (dependencies ?s))"
    by (simp add: summarize_dependencies_def Let_def)
  moreover have p: "pending_dependencies ?s
      = length (filter (\<lambda>d. d_status d = ''pending'' \<or> d_status d = ''in-progress'')
                  (dependencies ?s))"
    by (simp add: summarize_dependencies_def Let_def)
  moreover have b: "blocked_dependencies ?s
      = length (filter (\<lambda>d. d_status d = ''blocked'' \<or> d_status d = ''deferred'')
                  (dependencies ?s))"
    by (simp add: summarize_dependencies_def Let_def)
  moreover have rd: "is_ready ?s = (pending_dependencies ?s = 0 \<and> blocked_dependencies ?s = 0)"
    by (simp add: summarize_dependencies_def Let_def)
  moreover have "(\<forall>d \<in> set (dependencies ?s). d_status d = ''done'') \<longrightarrow> is_ready ?s"
    unfolding rd p b by (auto simp: filter_empty_conv)
  moreover have "(\<exists>d \<in> set (dependencies ?s).
            d_status d = ''pending'' \<or> d_status d = ''in-progress''
            \<or> d_status d = ''blocked'' \<or> d_status d = ''deferred'') \<longrightarrow> \<not> is_ready ?s"
    unfolding rd p b by (auto simp: filter_empty_conv)
  ultimately show ?thesis by blast
qed

theorem dependency_summary_readiness_witness:
  "\<exists>s. build_dependency_context example_db ''task-001'' [''task-002'', ''task-404'', ''task-003'']
          = Inr (Has_dependencies s)
        \<and> map d_status (dependencies s) = [''done'', ''pending'']
        \<and> total_dependencies s = 2 \<and> completed_dependencies s = 1
        \<and> pending_dependencies s = 1 \<and> blocked_dependencies s = 0 \<and> \<not> is_ready s"
proof -
  let ?deps = "[''task-002'', ''task-404'', ''task-003'']"
  have "(case build_dependency_context example_db ''task-001'' ?deps of
      Inr (Has_dependencies s) \<Rightarrow> total_dependencies s = 2 \<and> completed_dependencies s = 1
          \<and> pending_dependencies s = 1 \<and> blocked_dependencies s = 0
    | _ \<Rightarrow> False)"
    by code_simp
  then obtain s0 where b: "build_dependency_context example_db ''task-001'' ?deps
                          = Inr (Has_dependencies s0)"
    and c: "total_dependencies s0 = 2" "completed_dependencies s0 = 1"
           "pending_dependencies s0 = 1" "blocked_dependencies s0 = 0"
    by (auto split: sum.splits dependency_context.splits)
  have "length (resolved_parents example_db ?deps) = 2" by code_simp
  then have ne: "resolved_parents example_db ?deps \<noteq> []" by auto
  have st: "map (status_value \<circ> t_status) (resolved_parents example_db ?deps) = [''done'', ''pending'']"
    by code_simp
  from dependency_summary_readiness[OF b ne] obtain s where
    s: "Has_dependencies s0 = Has_dependencies s"
    and d: "dependencies s = map dependency_info_of (resolved_parents example_db ?deps)"
    and r: "is_ready s = (pending_dependencies s = 0 \<and> blocked_dependencies s = 0)"
    by blast
  from s have [simp]: "s0 = s" by simp
  have "map d_status (dependencies s) = [''done'', ''pending'']"
    using st by (simp add: d dependency_info_of_def comp_def)
  then show ?thesis using b c r by auto
qed

section \<open>Performance sampler\<close>

lemma truthy_values_sum:
  "sum_list (truthy_values (filter (\<lambda>m. m_type m = ''execution_time'') (map metric_of rows)))
   = sum_list (map metric_value (filter (\<lambda>r. metric_type r = ''execution_time'') rows))"
  by (induction rows)
     (auto simp: truthy_values_def List.map_filter_simps metric_of_def)

lemma execution_time_filter_length:
  "length (filter (\<lambda>m. m_type m = ''execution_time'') (map metric_of rows))
   = length (filter (\<lambda>r. metric_type r = ''execution_time'') rows)"
  by (induction rows) (auto simp: metric_of_def)

lemma latest_samples_bound: "length (latest_samples db tid) \<le> 20"
  by (simp add: latest_samples_def)

text \<open>
  C9. When the query for the samples does not fail, the performance context is returned.
  If the latest twenty samples of the task include a sample of type execution\_time, the
  summary's average (and the copy in the nested performance summary) is the sum of the
  values of exactly those samples divided by their number; if they include none, the
  summary is the one without metrics or its average is absent.
\<close>

theorem avg_execution_time_is_mean:
  assumes "failing db Q_performance_metrics tid = None"
  shows "\<exists>pc. get_performance_context db tid = Inr pc
     \<and> (execution_time_samples db tid \<noteq> [] \<longrightarrow>
          (\<exists>p. pc = Has_metrics p
             \<and> avg_execution_time p
                 = Some (sum_list (map metric_value (execution_time_samples db tid))
                         / real (length (execution_time_samples db tid)))
             \<and> ps_avg_execution_time_ms p = avg_execution_time p
             \<and> ps_execution_times p = length (execution_time_samples db tid)))
     \<and> (execution_time_samples db tid = [] \<longrightarrow>
          pc = No_metrics \<or> (\<exists>p. pc = Has_metrics p \<and> avg_execution_time p = None))"
proof (cases "latest_samples db tid = []")
  case True
  then have "get_performance_context db tid = Inr No_metrics"
    using assms by (simp add: get_performance_context_def fetch_def bind_result_def)
  moreover have "execution_time_samples db tid = []"
    using True by (simp add: execution_time_samples_def)
  ultimately show ?thesis by simp
next
  case False
  let ?rows = "latest_samples db tid"
  let ?ex = "filter (\<lambda>m. m_type m = ''execution_time'') (map metric_of ?rows)"
  have e: "(?ex = []) = (execution_time_samples db tid = [])"
    using execution_time_filter_length[of ?rows]
    by (metis execution_time_samples_def length_0_conv)
  show ?thesis
    using assms False e truthy_values_sum[of ?rows] execution_time_filter_length[of ?rows]
    by (simp add: get_performance_context_def fetch_def bind_result_def Let_def
                  execution_time_samples_def)
qed

theorem avg_execution_time_is_mean_witness:
  "\<exists>p. get_performance_context example_db ''task-001'' = Inr (Has_metrics p)
       \<and> avg_execution_time p = Some 100"
proof -
  have f: "failing example_db Q_performance_metrics ''task-001'' = None"
    by (simp add: example_db_def)
  have n: "map metric_value (execution_time_samples example_db ''task-001'') = [100, 0, 200]"
    by code_simp
  then have ne: "execution_time_samples example_db ''task-001'' \<noteq> []" by auto
  have l: "length (execution_time_samples example_db ''task-001'') = 3"
    using n by (metis length_map length_Cons list.size(3) numeral_3_eq_3)
  from avg_execution_time_is_mean[OF f] ne
  show ?thesis unfolding n l by auto
qed

section \<open>Interactions without a success field\<close>

lemma not_truthy_get_success:
  "(\<not> truthy (dict_get i ''success'' (PBool True))) = present_and_falsy i"
  by (simp add: dict_get_def present_and_falsy_def split: option.splits)

lemma interaction_step_error_count:
  "interaction_step acc i = Inr acc' \<Longrightarrow>
   ia_error_count acc' = ia_error_count acc + (if present_and_falsy i then 1 else 0)"
  by (auto simp: interaction_step_def Let_def not_truthy_get_success
           split: if_splits option.splits)

lemma interaction_step_ok:
  "(\<exists>acc'. interaction_step acc i = Inr acc') = step_ok i"
  by (auto simp: interaction_step_def Let_def step_ok_def split: if_splits option.splits)

lemma interaction_loop_error_count:
  "interaction_loop acc xs = Inr acc' \<Longrightarrow>
   ia_error_count acc' = ia_error_count acc + length (filter present_and_falsy xs)"
proof (induction xs arbitrary: acc)
  case Nil
  then show ?case by simp
next
  case (Cons x xs)
  from Cons.prems obtain a where a: "interaction_step acc x = Inr a"
    and l: "interaction_loop a xs = Inr acc'"
    by (auto simp: bind_result_def split: sum.splits)
  from Cons.IH[OF l] interaction_step_error_count[OF a] show ?case by simp
qed

lemma interaction_loop_ok:
  "(\<exists>acc'. interaction_loop acc xs = Inr acc') = list_all step_ok xs"
proof (induction xs arbitrary: acc)
  case Nil
  then show ?case by simp
next
  case (Cons x xs)
  show ?case
  proof (cases "interaction_step acc x")
    case (Inl e)
    then have "\<not> step_ok x" using interaction_step_ok[of acc x] by simp
    then show ?thesis using Inl by (simp add: bind_result_def)
  next
    case (Inr a)
    then have "step_ok x" using interaction_step_ok[of acc x] by auto
    then show ?thesis using Inr Cons.IH[of a] by (simp add: bind_result_def)
  qed
qed

lemma analyze_interactions_Some:
  assumes "analyze_interactions (Some xs) = Inr (Some st)"
  shows "xs \<noteq> [] \<and> total_interactions st = length xs
       \<and> error_count st = length (filter present_and_falsy xs)
       \<and> error_rate st = real (error_count st) / real (length xs)
       \<and> success_rate st = 1 - error_rate st"
proof (cases xs)
  case Nil
  with assms show ?thesis by (simp add: analyze_interactions_def)
next
  case (Cons y ys)
  with assms obtain acc where
    l: "interaction_loop \<lparr>ia_type_counts = Map.empty, ia_error_count = 0,
                           ia_total_execution_time = 0, ia_execution_count = 0\<rparr> xs = Inr acc"
    and st: "st = \<lparr> total_interactions = length xs,
                     interaction_types = ia_type_counts acc,
                     error_count = ia_error_count acc,
                     error_rate = real (ia_error_count acc) / real (length xs),
                     avg_execution_time_ms = (if ia_execution_count acc > 0
                               then Some (ia_total_execution_time acc / real (ia_execution_count acc))
                               else None),
                     success_rate = 1 - real (ia_error_count acc) / real (length xs) \<rparr>"
    by (auto simp: analyze_interactions_def bind_result_def Let_def split: sum.splits)
  from interaction_loop_error_count[OF l] show ?thesis using Cons by (simp add: st)
qed

lemma analyze_interactions_succeeds:
  assumes "xs \<noteq> []" "list_all step_ok xs"
  shows "\<exists>st. analyze_interactions (Some xs) = Inr (Some st)"
proof -
  from assms(2) interaction_loop_ok[of "\<lparr>ia_type_counts = Map.empty, ia_error_count = 0,
                           ia_total_execution_time = 0, ia_execution_count = 0\<rparr>" xs]
  obtain acc where "interaction_loop \<lparr>ia_type_counts = Map.empty, ia_error_count = 0,
                           ia_total_execution_time = 0, ia_execution_count = 0\<rparr> xs = Inr acc"
    by auto
  with assms(1) show ?thesis
    by (cases xs) (auto simp: analyze_interactions_def bind_result_def Let_def)
qed

lemma analyze_interactions_ok:
  assumes "analyze_interactions (Some xs) = Inr (Some st)"
  shows "list_all step_ok xs"
proof (cases xs)
  case Nil
  with assms show ?thesis by simp
next
  case (Cons y ys)
  with assms have "\<exists>acc. interaction_loop \<lparr>ia_type_counts = Map.empty, ia_error_count = 0,
                           ia_total_execution_time = 0, ia_execution_count = 0\<rparr> xs = Inr acc"
    by (auto simp: analyze_interactions_def bind_result_def Let_def split: sum.splits)
  then show ?thesis using interaction_loop_ok by blast
qed

lemma step_ok_success_upd: "step_ok (i(''success'' \<mapsto> v)) = step_ok i"
  by (simp add: step_ok_def dict_get_def)

text \<open>
  C10. Let an interaction record without a \<open>success\<close> entry stand anywhere in a list whose
  analysis succeeds. The record does not count as an error: the analysis' error count and
  the error count of the narrative are the number of the other records whose \<open>success\<close>
  entry is present and falsy. Were the record a failure instead (\<open>success\<close> set to false),
  the analysis would succeed as well, count one error more and report a strictly lower
  success rate. When the narrative counts no error, its sentence is the one about
  successful interactions.
\<close>

theorem missing_success_is_success:
  assumes a: "analyze_interactions (Some (pre @ [i] @ post)) = Inr (Some st)"
    and i: "i ''success'' = None"
  shows "\<not> present_and_falsy i
     \<and> error_count st = length (filter present_and_falsy (pre @ post))
     \<and> narrative_error_count (pre @ [i] @ post) = length (filter present_and_falsy (pre @ post))
     \<and> (\<exists>st'. analyze_interactions (Some (pre @ [i(''success'' \<mapsto> PBool False)] @ post))
                 = Inr (Some st')
             \<and> error_count st' = error_count st + 1
             \<and> success_rate st' < success_rate st)
     \<and> (narrative_error_count (pre @ [i] @ post) = 0 \<longrightarrow>
          interaction_sentence (Some (pre @ [i] @ post))
          = [''There have been '' @ str_nat (length (pre @ [i] @ post))
             @ '' successful recent AI interactions.''])"
proof -
  let ?xs = "pre @ [i] @ post"
  let ?j = "i(''success'' \<mapsto> PBool False)"
  let ?ys = "pre @ [?j] @ post"
  have ni: "\<not> present_and_falsy i" using i by (simp add: present_and_falsy_def)
  have pj: "present_and_falsy ?j" by (simp add: present_and_falsy_def)
  from analyze_interactions_Some[OF a] have
    ec: "error_count st = length (filter present_and_falsy ?xs)"
    and sr: "success_rate st = 1 - real (error_count st) / real (length ?xs)"
    by simp_all
  have ec': "error_count st = length (filter present_and_falsy (pre @ post))"
    using ec ni by simp
  have nc: "narrative_error_count ?xs = length (filter present_and_falsy (pre @ post))"
    using ni by (simp add: narrative_error_count_def not_truthy_get_success)
  from analyze_interactions_ok[OF a] have "list_all step_ok ?ys"
    by (simp add: step_ok_success_upd)
  from analyze_interactions_succeeds[OF _ this] obtain st'
    where a': "analyze_interactions (Some ?ys) = Inr (Some st')" by auto
  from analyze_interactions_Some[OF a'] have
    e2: "error_count st' = length (filter present_and_falsy ?ys)"
    and s2: "success_rate st' = 1 - real (error_count st') / real (length ?ys)"
    by simp_all
  have e3: "error_count st' = error_count st + 1" using e2 ec' pj by simp
  have "real (error_count st) / real (length ?xs) < real (error_count st') / real (length ?ys)"
    unfolding e3 by (simp add: divide_strict_right_mono)
  then have lt: "success_rate st' < success_rate st" using sr s2 by simp
  have sent: "narrative_error_count ?xs = 0 \<longrightarrow>
          interaction_sentence (Some ?xs)
          = [''There have been '' @ str_nat (length ?xs)
             @ '' successful recent AI interactions.'']"
    by (cases ?xs) (simp_all add: interaction_sentence_def Let_def)
  show ?thesis using ni ec' nc a' e3 lt sent by blast
qed
theorem missing_success_is_success_witness:
  "\<exists>st st'.
     analyze_interactions
       (Some ([interaction_dict (example_interaction_row (Some 1200) (Some True))]
              @ [bare_interaction]
              @ [interaction_dict (example_interaction_row (Some 800) (Some False))]))
       = Inr (Some st)
     \<and> error_count st = 1
     \<and> analyze_interactions
         (Some ([interaction_dict (example_interaction_row (Some 1200) (Some True))]
                @ [bare_interaction(''success'' \<mapsto> PBool False)]
                @ [interaction_dict (example_interaction_row (Some 800) (Some False))]))
         = Inr (Some st')
     \<and> error_count st' = 2
     \<and> success_rate st' < success_rate st"
proof -
  let ?pre = "[interaction_dict (example_interaction_row (Some 1200) (Some True))]"
  let ?post = "[interaction_dict (example_interaction_row (Some 800) (Some False))]"
  have "(case analyze_interactions (Some (?pre @ [bare_interaction] @ ?post)) of
           Inr (Some st) \<Rightarrow> True | _ \<Rightarrow> False)"
    by code_simp
  then obtain st where
    a: "analyze_interactions (Some (?pre @ [bare_interaction] @ ?post)) = Inr (Some st)"
    by (auto split: sum.splits option.splits)
  have i: "bare_interaction ''success'' = None" by (simp add: bare_interaction_def)
  have c: "length (filter present_and_falsy (?pre @ ?post)) = 1" by code_simp
  from missing_success_is_success[OF a i] show ?thesis using a c by auto
qed

section \<open>Health score: the fallback\<close>

text \<open>
  C2. \<open>get_context_health_score\<close> always returns a report. When the analysis raises, at
  whatever point (in a fetch, in the aggregation or in an analysis), the report is the
  degraded one: overall score 0, status error, and the text of the exception attached.
  When the analysis returns, the report is the one computed from it.
\<close>

theorem health_score_never_raises:
  "\<exists>r. get_context_health_score db tid now = Inr r
     \<and> (\<forall>e. analyze_context_patterns db tid = Inl e \<longrightarrow>
           r = degraded_report e now \<and> overall_score r = 0 \<and> health_status r = ''error''
           \<and> error r = Some (str_error e))
     \<and> (\<forall>a. analyze_context_patterns db tid = Inr a \<longrightarrow> r = health_of_analytics a now)"
proof (cases "analyze_context_patterns db tid")
  case (Inl e)
  then show ?thesis
    by (simp add: get_context_health_score_def try_except_def bind_result_def
                  degraded_report_def)
next
  case (Inr a)
  then show ?thesis
    by (simp add: get_context_health_score_def try_except_def bind_result_def)
qed

theorem health_score_never_raises_witness:
  "(\<exists>r. get_context_health_score faulty_db ''task-001'' ''2024-01-05T12:00:00'' = Inr r
        \<and> overall_score r = 0 \<and> health_status r = ''error''
        \<and> error r = Some ''connection lost'')
   \<and> (\<exists>r. get_context_health_score example_db ''task-404'' ''2024-01-05T12:00:00'' = Inr r
        \<and> overall_score r = 0 \<and> health_status r = ''error''
        \<and> error r = Some ''Task task-404 not found'')"
proof -
  have "(case analyze_context_patterns faulty_db ''task-001'' of
           Inl e \<Rightarrow> e = StorageError ''connection lost'' | Inr a \<Rightarrow> False)"
    by code_simp
  then have a: "analyze_context_patterns faulty_db ''task-001''
                = Inl (StorageError ''connection lost'')"
    by (auto split: sum.splits)
  have "(case analyze_context_patterns example_db ''task-404'' of
           Inl e \<Rightarrow> e = ValueError ''Task task-404 not found'' | Inr a \<Rightarrow> False)"
    by code_simp
  then have b: "analyze_context_patterns example_db ''task-404''
                = Inl (ValueError ''Task task-404 not found'')"
    by (auto split: sum.splits)
  from health_score_never_raises[of faulty_db "''task-001''" "''2024-01-05T12:00:00''"] a
  have 1: "\<exists>r. get_context_health_score faulty_db ''task-001'' ''2024-01-05T12:00:00'' = Inr r
        \<and> overall_score r = 0 \<and> health_status r = ''error''
        \<and> error r = Some ''connection lost''"
    by auto
  from health_score_never_raises[of example_db "''task-404''" "''2024-01-05T12:00:00''"] b
  have 2: "\<exists>r. get_context_health_score example_db ''task-404'' ''2024-01-05T12:00:00'' = Inr r
        \<and> overall_score r = 0 \<and> health_status r = ''error''
        \<and> error r = Some ''Task task-404 not found''"
    by auto
  from 1 2 show ?thesis by blast
qed

section \<open>Health score: range and status\<close>

lemma interaction_health_range:
  assumes "\<And>i t. ip = Some i \<Longrightarrow> avg_execution_time_ms i = Some t \<Longrightarrow> 0 \<le> t"
    and "\<And>i. ip = Some i \<Longrightarrow> 0 \<le> success_rate i \<and> success_rate i \<le> 1"
  shows "0 \<le> interaction_health_of ip \<and> interaction_health_of ip \<le> 100"
proof (cases ip)
  case None
  then show ?thesis by (simp add: interaction_health_of_def)
next
  case (Some i)
  from assms(2)[OF Some] have s: "0 \<le> success_rate i" "success_rate i \<le> 1" by simp_all
  define ts where "ts = (case avg_execution_time_ms i of None \<Rightarrow> 100
       | Some avg_time \<Rightarrow> if avg_time \<noteq> 0 then max 0 (100 - avg_time / 100) else (100::real))"
  have t: "0 \<le> ts \<and> ts \<le> 100"
    using assms(1)[OF Some] by (auto simp: ts_def split: option.splits)
  have "interaction_health_of ip = success_rate i * 70 + ts * 0.3"
    using Some by (simp add: interaction_health_of_def ts_def Let_def)
  then show ?thesis using s t by simp
qed

lemma validation_health_range:
  "0 \<le> validation_health_of vt \<and> validation_health_of vt \<le> 100"
  by (cases vt) (auto simp: validation_health_of_def Let_def)

lemma performance_health_range:
  "0 \<le> performance_health_of pm \<and> performance_health_of pm \<le> 100"
  by (cases pm) (auto simp: performance_health_of_def)

lemma complexity_health_range:
  "0 \<le> complexity_health_of ci \<and> complexity_health_of ci \<le> 100"
  by (auto simp: complexity_health_of_def)

lemma weighted_score_range:
  assumes "0 \<le> interaction_health sc" "interaction_health sc \<le> 100"
    "0 \<le> validation_health sc" "validation_health sc \<le> 100"
    "0 \<le> performance_health sc" "performance_health sc \<le> 100"
    "0 \<le> complexity_health sc" "complexity_health sc \<le> 100"
  shows "0 \<le> weighted_score sc \<and> weighted_score sc \<le> 100"
  using assms by (simp add: weighted_score_def)

lemma status_thresholds:
  "status_of_score 80 = ''excellent''" "status_of_score 79.9 = ''good''"
  "status_of_score 60 = ''good''" "status_of_score 40 = ''fair''" "status_of_score 39.9 = ''poor''"
  by (simp_all add: status_of_score_def)

text \<open>
  When no interaction analysis reports a negative average time, the weighted score of an
  analysis that the engine produced lies between 0 and 100, and so does its rounding.
\<close>

lemma analyze_interactions_rate:
  assumes "analyze_interactions xo = Inr (Some st)"
  shows "0 \<le> success_rate st \<and> success_rate st \<le> 1"
proof (cases xo)
  case None
  with assms show ?thesis by (simp add: analyze_interactions_def)
next
  case (Some xs)
  from analyze_interactions_Some[OF assms[unfolded Some]] have
    ne: "xs \<noteq> []" and ec: "error_count st = length (filter present_and_falsy xs)"
    and er: "error_rate st = real (error_count st) / real (length xs)"
    and sr: "success_rate st = 1 - error_rate st"
    by simp_all
  have "error_count st \<le> length xs" unfolding ec by (rule length_filter_le)
  then have "error_rate st \<le> 1" "0 \<le> error_rate st"
    using ne unfolding er by (simp_all add: divide_le_eq_1)
  then show ?thesis using sr by simp
qed

lemma analyze_context_patterns_interactions:
  assumes "analyze_context_patterns db tid = Inr a"
  shows "\<exists>xo. analyze_interactions xo = Inr (interaction_patterns a)"
  using assms
  by (auto simp: analyze_context_patterns_def bind_result_def Let_def split: sum.splits)

lemma health_score_range:
  assumes a: "analyze_context_patterns db tid = Inr a"
    and t: "\<And>i t. interaction_patterns a = Some i \<Longrightarrow> avg_execution_time_ms i = Some t \<Longrightarrow> 0 \<le> t"
  shows "0 \<le> weighted_score (component_scores_of a)
       \<and> weighted_score (component_scores_of a) \<le> 100"
proof -
  from analyze_context_patterns_interactions[OF a] obtain xo
    where xo: "analyze_interactions xo = Inr (interaction_patterns a)" ..
  have "0 \<le> interaction_health_of (interaction_patterns a)
        \<and> interaction_health_of (interaction_patterns a) \<le> 100"
  proof (rule interaction_health_range)
    fix i t assume "interaction_patterns a = Some i" "avg_execution_time_ms i = Some t"
    then show "0 \<le> t" by (rule t)
  next
    fix i assume "interaction_patterns a = Some i"
    with xo show "0 \<le> success_rate i \<and> success_rate i \<le> 1"
      using analyze_interactions_rate by simp
  qed
  then show ?thesis
    using validation_health_range[of "validation_trends a"]
      performance_health_range[of "performance_metrics_analysis a"]
      complexity_health_range[of "complexity_indicators a"]
    by (intro weighted_score_range) (simp_all add: component_scores_of_def)
qed

lemma round1_range:
  assumes "0 \<le> x" "x \<le> 100"
  shows "0 \<le> round1 x \<and> round1 x \<le> 100"
proof -
  define f where "f = \<lfloor>x * 10\<rfloor>"
  have f0: "0 \<le> f" using assms(1) by (simp add: f_def)
  have f1: "f \<le> 1000" using assms(2) by (simp add: f_def floor_le_iff)
  have fl: "of_int f \<le> x * 10" by (simp add: f_def)
  show ?thesis
  proof (cases "f = 1000")
    case True
    then have "x * 10 = 1000" using fl assms(2) by simp
    then have "round1 x = 100" using True by (simp add: round1_def Let_def f_def[symmetric])
    then show ?thesis by simp
  next
    case False
    then have "f + 1 \<le> 1000" using f1 by simp
    then have "real_of_int (f + 1) \<le> 1000" by linarith
    moreover have "0 \<le> real_of_int f" using f0 by simp
    moreover have "real_of_int f \<le> 1000" using f1 by linarith
    ultimately show ?thesis
      by (auto simp: round1_def Let_def f_def[symmetric])
  qed
qed

text \<open>
  C7 at the failing input: the only interaction of the task reports an execution time of
  -100000 ms. The time score is not capped at 100, the interaction health is 400 and the
  overall score is 161.
\<close>

theorem negative_time_health_score:
  "(case get_context_health_score negative_time_db ''task-001'' ''2024-01-05T12:00:00'' of
      Inr r \<Rightarrow> overall_score r = 161 \<and> health_status r = ''excellent''
              \<and> map_option interaction_health (scores r) = Some 400
    | Inl e \<Rightarrow> False)"
  by code_simp

section \<open>Export formats\<close>

lemma map_result_succeeds:
  "(\<And>x. x \<in> set xs \<Longrightarrow> \<exists>y. f x = Inr y) \<Longrightarrow> \<exists>ys. map_result f xs = Inr ys"
proof (induction xs)
  case Nil
  then show ?case by simp
next
  case (Cons x xs)
  from Cons.prems[of x] obtain y where y: "f x = Inr y" by auto
  from Cons.IH Cons.prems obtain ys where ys: "map_result f xs = Inr ys" by auto
  show ?case using y ys by (simp add: bind_result_def)
qed

lemma interaction_lines_dict:
  "\<exists>ls. interaction_lines repr (n, interaction_dict row) = Inr ls"
  by (simp add: interaction_lines_def interaction_dict_def)

lemma validation_line_dict:
  "\<exists>l. validation_line repr (validation_dict row) = Inr l"
  by (simp add: validation_line_def validation_dict_def)

lemma validation_status_dict:
  "validation_dict row ''status'' = Some (PStr (status row))"
  by (simp add: validation_dict_def)

lemma get_task_context_dicts:
  assumes "get_task_context db tid = Inr fc"
  shows "(\<forall>i \<in> set (tc_ai_interactions fc). \<exists>row. i = interaction_dict row)
       \<and> (\<forall>v \<in> set (tc_validation_results fc). \<exists>row. v = validation_dict row)"
  using assms
  by (auto simp: get_task_context_def bind_result_def fetch_def split: option.splits)

lemma set_slice_to: "set (slice_to n xs) \<subseteq> set xs"
  by (auto simp: slice_to_def dest: in_set_takeD)

lemma generate_prompt_context_dicts:
  assumes "generate_prompt_context db tid h mi mv = Inr c"
  shows "(\<forall>xs. recent_interactions c = Some xs \<longrightarrow> (\<forall>i \<in> set xs. \<exists>row. i = interaction_dict row))
       \<and> (\<forall>vs. validation_history c = Some vs \<longrightarrow> (\<forall>v \<in> set vs. \<exists>row. v = validation_dict row))"
proof -
  from assms obtain fc where fc: "get_task_context db tid = Inr fc"
    and ri: "recent_interactions c =
               (if h \<and> tc_ai_interactions fc \<noteq> []
                then Some (slice_to mi (tc_ai_interactions fc)) else None)"
    and vh: "validation_history c =
               (if h \<and> tc_validation_results fc \<noteq> []
                then Some (slice_to mv (tc_validation_results fc)) else None)"
    by (auto simp: generate_prompt_context_def bind_result_def
             split: sum.splits option.splits)
  from get_task_context_dicts[OF fc] show ?thesis
    using ri vh set_slice_to[of mi "tc_ai_interactions fc"]
      set_slice_to[of mv "tc_validation_results fc"]
    by (auto split: if_splits)
qed

lemma format_structured_succeeds:
  assumes i: "\<forall>xs. recent_interactions c = Some xs \<longrightarrow> (\<forall>i \<in> set xs. \<exists>row. i = interaction_dict row)"
    and v: "\<forall>vs. validation_history c = Some vs \<longrightarrow> (\<forall>v \<in> set vs. \<exists>row. v = validation_dict row)"
  shows "\<exists>txt. format_structured_context repr c = Inr txt"
proof -
  have a: "\<exists>sec. (case recent_interactions c of
          Some (i # rest) \<Rightarrow>
            bind_result (map_result (interaction_lines repr) (enumerate 0 (take 3 (i # rest))))
              (\<lambda>ls. Inr ((newline @ ''## Recent AI Interactions'') # concat ls))
        | _ \<Rightarrow> Inr []) = Inr sec"
  proof (cases "recent_interactions c")
    case None
    then show ?thesis by simp
  next
    case (Some xs)
    show ?thesis
    proof (cases xs)
      case Nil
      then show ?thesis using Some by simp
    next
      case (Cons y ys)
      have "\<exists>ls. map_result (interaction_lines repr) (enumerate 0 (take 3 xs)) = Inr ls"
      proof (rule map_result_succeeds)
        fix p assume "p \<in> set (enumerate 0 (take 3 xs))"
        then have "snd p \<in> snd ` set (enumerate 0 (take 3 xs))" by (rule imageI)
        then have "snd p \<in> set (take 3 xs)"
          by (simp only: set_map[symmetric] map_snd_enumerate)
        then have "snd p \<in> set xs" by (rule in_set_takeD)
        with i Some obtain row where "snd p = interaction_dict row" by blast
        then have "p = (fst p, interaction_dict row)" by (cases p) simp
        then show "\<exists>y. interaction_lines repr p = Inr y"
          using interaction_lines_dict[of repr "fst p" row] by simp
      qed
      then show ?thesis using Some Cons by (auto simp: bind_result_def)
    qed
  qed
  have b: "\<exists>sec. (case validation_history c of
          Some (v # rest) \<Rightarrow>
            bind_result (map_result (validation_line repr) (take 3 (v # rest)))
              (\<lambda>ls. Inr ((newline @ ''## Recent Validations'') # ls))
        | _ \<Rightarrow> Inr []) = Inr sec"
  proof (cases "validation_history c")
    case None
    then show ?thesis by simp
  next
    case (Some vs)
    show ?thesis
    proof (cases vs)
      case Nil
      then show ?thesis using Some by simp
    next
      case (Cons y ys)
      have "\<exists>ls. map_result (validation_line repr) (take 3 vs) = Inr ls"
      proof (rule map_result_succeeds)
        fix w assume "w \<in> set (take 3 vs)"
        then have "w \<in> set vs" by (rule in_set_takeD)
        with v Some obtain row where "w = validation_dict row" by blast
        then show "\<exists>y. validation_line repr w = Inr y"
          using validation_line_dict[of repr row] by simp
      qed
      then show ?thesis using Some Cons by (auto simp: bind_result_def)
    qed
  qed
  from a b show ?thesis
    unfolding format_structured_context_def by (auto simp: bind_result_def)
qed

lemma validation_sentence_succeeds:
  assumes v: "\<forall>vs. validations = Some vs \<longrightarrow> (\<forall>v \<in> set vs. \<exists>row. v = validation_dict row)"
  shows "\<exists>s. validation_sentence validations = Inr s"
proof (cases validations)
  case None
  then show ?thesis by (simp add: validation_sentence_def)
next
  case (Some vs)
  show ?thesis
  proof (cases vs)
    case Nil
    then show ?thesis using Some by (simp add: validation_sentence_def)
  next
    case (Cons y ys)
    have "\<exists>fl. map_result (\<lambda>w. case w ''status'' of None \<Rightarrow> Inl (KeyError ''status'')
                                | Some st \<Rightarrow> Inr (st = PStr ''passed'')) (take 3 vs) = Inr fl"
    proof (rule map_result_succeeds)
      fix w assume "w \<in> set (take 3 vs)"
      then have "w \<in> set vs" by (rule in_set_takeD)
      with v Some obtain row where "w = validation_dict row" by blast
      then show "\<exists>y. (case w ''status'' of None \<Rightarrow> Inl (KeyError ''status'')
                                | Some st \<Rightarrow> Inr (st = PStr ''passed'')) = Inr y"
        by (simp add: validation_status_dict)
    qed
    then show ?thesis using Some Cons by (auto simp: validation_sentence_def bind_result_def)
  qed
qed

lemma format_narrative_succeeds:
  assumes v: "\<forall>vs. validation_history c = Some vs \<longrightarrow> (\<forall>v \<in> set vs. \<exists>row. v = validation_dict row)"
  shows "\<exists>txt. format_narrative_context c = Inr txt"
proof -
  from validation_sentence_succeeds[OF v] obtain s
    where "validation_sentence (validation_history c) = Inr s" ..
  then show ?thesis by (simp add: format_narrative_context_def bind_result_def)
qed

text \<open>
  C1, as stated: every task id with the format token raw would get rendered text, and every
  token outside structured, narrative, raw would fail. For the existing task task-001 the
  token raw is refused and the token json is accepted; for the missing task task-404 the
  token structured yields no text.
\<close>

theorem export_raw_counterexample:
  "export_context_for_prompt plain_repr plain_dumps example_db ''task-001'' ''raw''
     = Inl (ValueError ''Unsupported format type: raw'')
   \<and> export_context_for_prompt plain_repr plain_dumps example_db ''task-001'' ''json''
     = Inr ''{}''
   \<and> export_context_for_prompt plain_repr plain_dumps example_db ''task-404'' ''structured''
     = Inl (ValueError ''Task task-404 not found'')"
  by code_simp

text \<open>
  C1, amended. When the prompt context of the task cannot be generated, the export fails with
  that very exception. When it can, the export returns rendered text for the format tokens
  structured, narrative and json, and fails with the ValueError
  \<open>Unsupported format type: <token>\<close> for every other token, raw included.
\<close>

theorem export_formats:
  "(\<forall>e. generate_prompt_context db tid True 10 5 = Inl e \<longrightarrow>
        export_context_for_prompt repr dumps db tid fmt = Inl e)
   \<and> (\<forall>c. generate_prompt_context db tid True 10 5 = Inr c \<longrightarrow>
        (if fmt = ''structured'' \<or> fmt = ''narrative'' \<or> fmt = ''json''
         then \<exists>txt. export_context_for_prompt repr dumps db tid fmt = Inr txt
         else export_context_for_prompt repr dumps db tid fmt
              = Inl (ValueError (''Unsupported format type: '' @ fmt))))"
proof (cases "generate_prompt_context db tid True 10 5")
  case (Inl e)
  then show ?thesis by (simp add: export_context_for_prompt_def bind_result_def)
next
  case (Inr c)
  from generate_prompt_context_dicts[OF Inr] have
    i: "\<forall>xs. recent_interactions c = Some xs \<longrightarrow> (\<forall>i \<in> set xs. \<exists>row. i = interaction_dict row)"
    and v: "\<forall>vs. validation_history c = Some vs \<longrightarrow> (\<forall>v \<in> set vs. \<exists>row. v = validation_dict row)"
    by simp_all
  from format_structured_succeeds[OF i v] obtain s
    where s: "format_structured_context repr c = Inr s" ..
  from format_narrative_succeeds[OF v] obtain n
    where n: "format_narrative_context c = Inr n" ..
  show ?thesis using Inr s n by (simp add: export_context_for_prompt_def bind_result_def)
qed

theorem export_formats_witness:
  "(\<exists>txt. export_context_for_prompt plain_repr plain_dumps example_db ''task-001'' ''narrative''
           = Inr txt)
   \<and> export_context_for_prompt plain_repr plain_dumps example_db ''task-001'' ''yaml''
     = Inl (ValueError ''Unsupported format type: yaml'')
   \<and> export_context_for_prompt plain_repr plain_dumps faulty_db ''task-001'' ''structured''
     = Inl (StorageError ''connection lost'')"
proof -
  have "(case generate_prompt_context example_db ''task-001'' True 10 5 of
           Inr c \<Rightarrow> True | Inl e \<Rightarrow> False)"
    by code_simp
  then obtain c where c: "generate_prompt_context example_db ''task-001'' True 10 5 = Inr c"
    by (auto split: sum.splits)
  have "(case generate_prompt_context faulty_db ''task-001'' True 10 5 of
           Inr c \<Rightarrow> False | Inl e \<Rightarrow> e = StorageError ''connection lost'')"
    by code_simp
  then have f: "generate_prompt_context faulty_db ''task-001'' True 10 5
                = Inl (StorageError ''connection lost'')"
    by (auto split: sum.splits)
  from export_formats[of example_db "''task-001''" plain_repr plain_dumps "''narrative''"] c
  have 1: "\<exists>txt. export_context_for_prompt plain_repr plain_dumps example_db ''task-001''
                   ''narrative'' = Inr txt"
    by simp
  from export_formats[of example_db "''task-001''" plain_repr plain_dumps "''yaml''"] c
  have 2: "export_context_for_prompt plain_repr plain_dumps example_db ''task-001'' ''yaml''
           = Inl (ValueError ''Unsupported format type: yaml'')"
    by simp
  from export_formats[of faulty_db "''task-001''" plain_repr plain_dumps "''structured''"] f
  have 3: "export_context_for_prompt plain_repr plain_dumps faulty_db ''task-001''
             ''structured'' = Inl (StorageError ''connection lost'')"
    by simp
  from 1 2 3 show ?thesis by blast
qed

section \<open>Recommendations: the rule list\<close>

text \<open>
  C4, as stated: the recommendations would be exactly the matching rules of the nine-rule
  list. For a task of high complexity without interactions and validations the code
  emits the advisory for high complexity first, which no rule of the list emits.
\<close>

theorem recommendations_high_counterexample:
  "generate_recommendations high_complexity None None None
     = Inr [rec_high, rec_no_interactions, rec_no_validations]
   \<and> matching spec_rules (high_complexity, None, None, None)
     = [rec_no_interactions, rec_no_validations]
   \<and> rec_high \<notin> set (map snd spec_rules)"
  by code_simp

text \<open>
  C4, amended. When the interaction statistics are absent or report an average execution
  time, the recommendations are exactly the advisories of the matching rules of the list
  with the rule for high complexity added, in the order of that list.
\<close>

theorem recommendations_follow_rules:
  assumes "timing_known interactions"
  shows "generate_recommendations complexity interactions validations performance
         = Inr (matching amended_rules (complexity, interactions, validations, performance))"
proof (cases interactions)
  case None
  then show ?thesis
    by (cases validations; cases performance)
       (simp_all add: generate_recommendations_def matching_def amended_rules_def Let_def
          rule_very_high_def rule_high_def rule_dependencies_def rule_error_rate_def
          rule_slow_def rule_pass_rate_def rule_validation_trend_def
          rule_performance_trend_def rule_no_interactions_def rule_no_validations_def)
next
  case (Some s)
  with assms obtain t where t: "avg_execution_time_ms s = Some t"
    by (auto simp: timing_known_def)
  show ?thesis
    using Some t
    by (cases validations; cases performance)
       (simp_all add: generate_recommendations_def matching_def amended_rules_def Let_def
          rule_very_high_def rule_high_def rule_dependencies_def rule_error_rate_def
          rule_slow_def rule_pass_rate_def rule_validation_trend_def
          rule_performance_trend_def rule_no_interactions_def rule_no_validations_def)
qed

theorem recommendations_follow_rules_witness:
  "generate_recommendations high_complexity (Some slow_interactions) None None
   = Inr [rec_high, rec_error_rate, rec_slow, rec_no_validations]"
proof -
  have t: "timing_known (Some slow_interactions)"
    by (simp add: timing_known_def slow_interactions_def)
  have m: "matching amended_rules (high_complexity, Some slow_interactions, None, None)
           = [rec_high, rec_error_rate, rec_slow, rec_no_validations]"
    by (simp add: matching_def amended_rules_def high_complexity_def slow_interactions_def
          rule_very_high_def rule_high_def rule_dependencies_def rule_error_rate_def
          rule_slow_def rule_pass_rate_def rule_validation_trend_def
          rule_performance_trend_def rule_no_interactions_def rule_no_validations_def)
  from recommendations_follow_rules[OF t, of high_complexity None None] m
  show ?thesis by simp
qed

lemma recommendations_type_error:
  assumes "avg_execution_time_ms s = None"
  shows "\<exists>m. generate_recommendations complexity (Some s) validations performance
              = Inl (TypeError m)"
  using assms by (simp add: generate_recommendations_def Let_def)

text \<open>A task whose interactions report no execution time: the analysis raises.\<close>

lemma untimed_analysis_raises:
  "(case analyze_context_patterns untimed_db ''task-001'' of
      Inl (TypeError m) \<Rightarrow> True | _ \<Rightarrow> False)"
  by code_simp

section \<open>Context bundle\<close>

lemma fold_requirements:
  "tc_requirements_context (foldl process_context_row c rows)
   = (case filter (\<lambda>r. context_type r = ''requirements'') rows of
        [] \<Rightarrow> tc_requirements_context c
      | f # fs \<Rightarrow> context_data (last (f # fs)))"
proof (induction rows rule: rev_induct)
  case Nil
  then show ?case by simp
next
  case (snoc x xs)
  then show ?case
    by (auto simp: process_context_row_def split: list.splits)
qed

lemma fold_codebase:
  "tc_codebase_context (foldl process_context_row c rows)
   = (case filter (\<lambda>r. context_type r = ''codebase'') rows of
        [] \<Rightarrow> tc_codebase_context c
      | f # fs \<Rightarrow> context_data (last (f # fs)))"
proof (induction rows rule: rev_induct)
  case Nil
  then show ?case by simp
next
  case (snoc x xs)
  then show ?case
    by (auto simp: process_context_row_def split: list.splits)
qed

lemma fold_workflow:
  "tc_workflow_state (foldl process_context_row c rows)
   = (case filter (\<lambda>r. context_type r = ''workflow'') rows of
        [] \<Rightarrow> tc_workflow_state c
      | f # fs \<Rightarrow> context_data (last (f # fs)))"
proof (induction rows rule: rev_induct)
  case Nil
  then show ?case by simp
next
  case (snoc x xs)
  then show ?case
    by (auto simp: process_context_row_def split: list.splits)
qed

lemma fold_metadata:
  "tc_metadata (foldl process_context_row c rows) = tc_metadata c"
  by (induction rows rule: rev_induct) (auto simp: process_context_row_def)

lemma get_task_context_bundle:
  assumes "get_task_context db tid = Inr fc"
  shows "tc_requirements_context fc
           = (case stored_rows db tid ''requirements'' of
                [] \<Rightarrow> PNone | f # fs \<Rightarrow> context_data (last (f # fs)))"
    and "tc_codebase_context fc
           = (case stored_rows db tid ''codebase'' of
                [] \<Rightarrow> PNone | f # fs \<Rightarrow> context_data (last (f # fs)))"
    and "tc_workflow_state fc
           = (case stored_rows db tid ''workflow'' of
                [] \<Rightarrow> PNone | f # fs \<Rightarrow> context_data (last (f # fs)))"
    and "tc_metadata fc = PNone"
  using assms
  by (auto simp: get_task_context_def bind_result_def fetch_def stored_rows_def
        fold_requirements fold_codebase fold_workflow fold_metadata new_TaskContext_def
      split: option.splits list.splits)

lemma generate_prompt_context_bundle:
  assumes "generate_prompt_context db tid h mi mv = Inr c"
  shows "\<exists>fc. get_task_context db tid = Inr fc
            \<and> requirements_context c = tc_requirements_context fc
            \<and> codebase_context c = tc_codebase_context fc
            \<and> workflow_state c = tc_workflow_state fc
            \<and> metadata c = tc_metadata fc"
  using assms
  by (auto simp: generate_prompt_context_def bind_result_def split: sum.splits option.splits)

text \<open>
  C5, as stated: for each of the five context types with a stored value the snapshot would
  hold the value written last. After the writes requirements \<open>first\<close>, requirements
  \<open>second\<close>, metadata \<open>meta\<close> the snapshot holds \<open>first\<close> for the requirements and
  nothing for the metadata.
\<close>

theorem context_bundle_counterexample:
  "map_sum id requirements_context snapshot_after_writes = Inr (PStr ''first'')
   \<and> map_sum id metadata snapshot_after_writes = Inr PNone"
  by code_simp

text \<open>
  C5, amended. The prompt context exposes the stored bundle for the context types
  requirements, codebase and workflow, each under its own field and never merged with
  another type: when the task has exactly one active stored row of such a type, the snapshot
  holds that row's value, and when it has none the entry is absent. The metadata entry of
  the snapshot is always absent.
\<close>

theorem context_bundle_single_row:
  assumes g: "generate_prompt_context db tid h mi mv = Inr c"
    and ty: "ty = ''requirements'' \<or> ty = ''codebase'' \<or> ty = ''workflow''"
  shows "(\<forall>row. stored_rows db tid ty = [row] \<longrightarrow> exposed ty c = context_data row)
       \<and> (stored_rows db tid ty = [] \<longrightarrow> exposed ty c = PNone)
       \<and> metadata c = PNone"
proof -
  from generate_prompt_context_bundle[OF g] obtain fc where
    fc: "get_task_context db tid = Inr fc"
    and e: "requirements_context c = tc_requirements_context fc"
       "codebase_context c = tc_codebase_context fc"
       "workflow_state c = tc_workflow_state fc"
    and m: "metadata c = tc_metadata fc"
    by blast
  have md: "metadata c = PNone" using m get_task_context_bundle(4)[OF fc] by simp
  from ty show ?thesis
  proof (elim disjE)
    assume "ty = ''requirements''"
    then show ?thesis
      using get_task_context_bundle(1)[OF fc] e md by (auto simp: exposed_def)
  next
    assume "ty = ''codebase''"
    then show ?thesis
      using get_task_context_bundle(2)[OF fc] e md by (auto simp: exposed_def)
  next
    assume "ty = ''workflow''"
    then show ?thesis
      using get_task_context_bundle(3)[OF fc] e md by (auto simp: exposed_def)
  qed
qed

theorem context_bundle_single_row_witness:
  "\<exists>c. generate_prompt_context example_db ''task-001'' True 10 5 = Inr c
       \<and> codebase_context c = PDict [(''architecture'', PStr ''REST'')]
       \<and> requirements_context c = PNone"
proof -
  have "(case generate_prompt_context example_db ''task-001'' True 10 5 of
           Inr c \<Rightarrow> True | Inl e \<Rightarrow> False)"
    by code_simp
  then obtain c where c: "generate_prompt_context example_db ''task-001'' True 10 5 = Inr c"
    by (auto split: sum.splits)
  have r: "map context_data (stored_rows example_db ''task-001'' ''codebase'')
           = [PDict [(''architecture'', PStr ''REST'')]]"
    by code_simp
  then obtain row where row: "stored_rows example_db ''task-001'' ''codebase'' = [row]"
    and d: "context_data row = PDict [(''architecture'', PStr ''REST'')]"
    by auto
  have n: "stored_rows example_db ''task-001'' ''requirements'' = []"
    by code_simp
  from context_bundle_single_row[OF c, of "''codebase''"] row d
  have 1: "codebase_context c = PDict [(''architecture'', PStr ''REST'')]"
    by (simp add: exposed_def)
  from context_bundle_single_row[OF c, of "''requirements''"] n
  have 2: "requirements_context c = PNone"
    by (simp add: exposed_def)
  from c 1 2 show ?thesis by blast
qed

text \<open>What the loop does with several rows of one type: the row read last stays.\<close>

lemma context_bundle_last_row_read:
  assumes "generate_prompt_context db tid h mi mv = Inr c"
    and "stored_rows db tid ''requirements'' = f # fs"
  shows "requirements_context c = context_data (last (f # fs))"
proof -
  from generate_prompt_context_bundle[OF assms(1)] obtain fc where
    fc: "get_task_context db tid = Inr fc"
    and e: "requirements_context c = tc_requirements_context fc"
    by blast
  from get_task_context_bundle(1)[OF fc] assms(2) e show ?thesis by simp
qed

end
